theory Spec2Isabelle
  imports Main
begin

text \<open>
  A model of \<^verbatim>\<open>generate_and_upload_to_dropbox.py\<close>: the image fetcher, the deck builder, the
  uploader and \<^verbatim>\<open>main\<close>. The program is glue between three services, so the model makes
  the services explicit: what they answer is a parameter of every function (the world),
  and what the program does to them is recorded in the state it passes along (the lines
  printed, the files written, the requests sent).
\<close>

section \<open>Strings\<close>

text \<open>
  A Python \<^verbatim>\<open>str\<close> is the sequence of its Unicode code points, and a \<^verbatim>\<open>bytes\<close> value the
  sequence of its octets; both are lists of naturals. \<open>lit\<close> turns an ASCII literal of the
  source into such a list; the two non-ASCII characters of the slide table (U+2014 and
  U+2192) are written as their code points.
\<close>

type_synonym str = "nat list"
type_synonym bytes = "nat list"

definition lit :: "string \<Rightarrow> str" where
  "lit cs = map of_char cs"

text \<open>\<^verbatim>\<open>str(n)\<close> for a non-negative integer: its decimal digits.\<close>

function str_nat :: "nat \<Rightarrow> str" where
  "str_nat n = (if n < 10 then [48 + n] else str_nat (n div 10) @ [48 + n mod 10])"
  by pat_completeness auto
termination
  by (relation "measure id") auto

declare str_nat.simps [simp del]

text \<open>\<^verbatim>\<open>sub in x\<close> for two strings: \<open>sub\<close> occurs in \<open>x\<close> as a contiguous slice.\<close>

fun contains :: "str \<Rightarrow> str \<Rightarrow> bool" where
  "contains [] sub = (sub = [])"
| "contains (c # cs) sub = (take (length sub) (c # cs) = sub \<or> contains cs sub)"

text \<open>
  \<^verbatim>\<open>x.replace(old, new)\<close>: every non-overlapping occurrence of \<open>old\<close>, scanning from the
  left, is replaced; an empty \<open>old\<close> matches before every character and at the end.
\<close>

function replace :: "str \<Rightarrow> str \<Rightarrow> str \<Rightarrow> str" where
  "replace old new [] = (if old = [] then new else [])"
| "replace old new (c # cs) =
     (if old = [] then new @ c # replace old new cs
      else if take (length old) (c # cs) = old
        then new @ replace old new (drop (length old) (c # cs))
      else c # replace old new cs)"
  by pat_completeness auto
termination
  by (relation "measure (\<lambda>(old, new, x). length x)") auto

text \<open>
  \<^verbatim>\<open>x.strip()\<close> removes the leading and trailing characters for which \<^verbatim>\<open>str.isspace\<close>
  holds.
\<close>

definition isspace :: "nat \<Rightarrow> bool" where
  "isspace c = (c \<in> set ([9..<14] @ [28..<33] @ [0x85, 0xA0, 0x1680] @ [0x2000..<0x200B]
                         @ [0x2028, 0x2029, 0x202F, 0x205F, 0x3000]))"

definition strip :: "str \<Rightarrow> str" where
  "strip x = rev (dropWhile isspace (rev (dropWhile isspace x)))"

text \<open>
  \<^verbatim>\<open>os.path.join(a, b)\<close> on a POSIX system: an absolute \<open>b\<close> discards \<open>a\<close>; otherwise the
  two are joined by one separator unless \<open>a\<close> is empty or already ends with one.
\<close>

definition os_path_join :: "str \<Rightarrow> str \<Rightarrow> str" where
  "os_path_join a b =
     (if take 1 b = lit ''/'' then b
      else if a = [] \<or> last a = 47 then a @ b
      else a @ lit ''/'' @ b)"

section \<open>Exceptions\<close>

text \<open>
  A raised exception is a value: its class name and the text \<^verbatim>\<open>str(e)\<close>. Every exception
  of the model is an instance of \<^verbatim>\<open>Exception\<close>, which is what the handlers of the source
  catch; a function that may raise returns \<open>exn + 'a\<close>, with \<open>Inl\<close> the exception that leaves it.
\<close>

datatype exn = Exn (exn_class: str) (exn_str: str)

section \<open>The slide document\<close>

text \<open>
  The part of python-pptx the program drives. Lengths are in hundredths of an inch
  (\<^verbatim>\<open>Inches(0.5)\<close> is 50); the default template is 10 by 7.5 inches. Font sizes are in points.
  A font attribute that was never set is \<open>None\<close>.
\<close>

datatype rgb = RGBColor nat nat nat

record font =
  font_size :: "nat option"
  font_bold :: "bool option"
  font_color :: "rgb option"

record par =
  par_text :: str
  par_font :: font

record geometry =
  g_left :: nat
  g_top :: nat
  g_width :: nat
  g_height :: nat

datatype fill = Fill_inherited | Fill_solid "rgb option" | Fill_background

datatype shape =
    Auto_shape nat geometry fill fill
  | Text_box geometry "par list"
  | Picture str nat nat nat

record slide =
  shapes :: "shape list"
  notes_text :: str

text \<open>What a file holds: raw bytes, or a presentation as \<^verbatim>\<open>prs.save\<close> serialised it.\<close>

datatype file_data = Raw bytes | Pptx "slide list"

section \<open>HTTP\<close>

text \<open>
  A request as \<^verbatim>\<open>requests.get\<close> and \<^verbatim>\<open>requests.post\<close> receive it: the URL and the keyword
  arguments \<^verbatim>\<open>headers\<close>, \<^verbatim>\<open>data\<close> or \<^verbatim>\<open>json\<close>, and \<^verbatim>\<open>timeout\<close> in seconds (\<open>None\<close> when the
  call passes none, which makes the library wait without limit).
\<close>

datatype http_method = GET | POST

text \<open>
  The Python values a JSON document decodes to. A float is kept as far as the program
  looks at it: whether it is zero. An object is the list of the items of the decoded
  \<^verbatim>\<open>dict\<close>.
\<close>

datatype pyval =
    PNone
  | PBool bool
  | PInt int
  | PFloat bool
  | PStr str
  | PList "pyval list"
  | PDict "(str \<times> pyval) list"

fun type_name :: "pyval \<Rightarrow> str" where
  "type_name PNone = lit ''NoneType''"
| "type_name (PBool b) = lit ''bool''"
| "type_name (PInt n) = lit ''int''"
| "type_name (PFloat z) = lit ''float''"
| "type_name (PStr x) = lit ''str''"
| "type_name (PList xs) = lit ''list''"
| "type_name (PDict kvs) = lit ''dict''"

text \<open>The truth value of \<^verbatim>\<open>v\<close> in \<^verbatim>\<open>if v\<close>.\<close>

fun py_truthy :: "pyval \<Rightarrow> bool" where
  "py_truthy PNone = False"
| "py_truthy (PBool b) = b"
| "py_truthy (PInt n) = (n \<noteq> 0)"
| "py_truthy (PFloat z) = (\<not> z)"
| "py_truthy (PStr x) = (x \<noteq> [])"
| "py_truthy (PList xs) = (xs \<noteq> [])"
| "py_truthy (PDict kvs) = (kvs \<noteq> [])"

text \<open>
  \<^verbatim>\<open>sub in v\<close> for a string \<open>sub\<close>: a slice of a string, an element of a list, a key of a
  \<^verbatim>\<open>dict\<close>; \<^verbatim>\<open>TypeError\<close> for a value that is not a container.
\<close>

fun py_in :: "str \<Rightarrow> pyval \<Rightarrow> exn + bool" where
  "py_in sub (PStr x) = Inr (contains x sub)"
| "py_in sub (PList xs) = Inr (PStr sub \<in> set xs)"
| "py_in sub (PDict kvs) = Inr (sub \<in> set (map fst kvs))"
| "py_in sub v =
     Inl (Exn (lit ''TypeError'')
            (lit ''argument of type '' @ [39] @ type_name v @ [39] @ lit '' is not iterable''))"

text \<open>\<^verbatim>\<open>v.replace(old, new)\<close> and \<^verbatim>\<open>v.get(key)\<close>: \<^verbatim>\<open>AttributeError\<close> where the type has no such method.\<close>

definition no_attribute :: "pyval \<Rightarrow> str \<Rightarrow> exn" where
  "no_attribute v name =
     Exn (lit ''AttributeError'')
       ([39] @ type_name v @ [39] @ lit '' object has no attribute '' @ [39] @ name @ [39])"

fun py_replace :: "str \<Rightarrow> str \<Rightarrow> pyval \<Rightarrow> exn + pyval" where
  "py_replace old new (PStr x) = Inr (PStr (replace old new x))"
| "py_replace old new v = Inl (no_attribute v (lit ''replace''))"

fun py_get :: "pyval \<Rightarrow> str \<Rightarrow> exn + pyval" where
  "py_get (PDict kvs) key = Inr (case map_of kvs key of None \<Rightarrow> PNone | Some v \<Rightarrow> v)"
| "py_get v key = Inl (no_attribute v (lit ''get''))"

datatype payload = No_body | Data file_data | Json pyval

record request =
  meth :: http_method
  url :: str
  headers :: "(str \<times> str) list"
  body :: payload
  timeout :: "nat option"

text \<open>
  A response: \<open>json_body\<close> is what \<^verbatim>\<open>r.json()\<close> returns, or the exception it raises when the
  body is not a JSON document.
\<close>

record response =
  status_code :: nat
  reason :: str
  resp_url :: str
  content :: bytes
  resp_text :: str
  json_body :: "exn + pyval"

text \<open>
  \<^verbatim>\<open>Response.raise_for_status\<close> of the requests library raises \<^verbatim>\<open>HTTPError\<close> for a status from
  400 to 599 and returns for every other status.
\<close>

definition raise_for_status :: "response \<Rightarrow> exn + unit" where
  "raise_for_status r =
     (if 400 \<le> status_code r \<and> status_code r < 500
        then Inl (Exn (lit ''HTTPError'')
               (str_nat (status_code r) @ lit '' Client Error: '' @ reason r
                @ lit '' for url: '' @ resp_url r))
      else if 500 \<le> status_code r \<and> status_code r < 600
        then Inl (Exn (lit ''HTTPError'')
               (str_nat (status_code r) @ lit '' Server Error: '' @ reason r
                @ lit '' for url: '' @ resp_url r))
      else Inr ())"

section \<open>The world and the state of a run\<close>

text \<open>
  Everything a run reads from outside the program is a field of \<open>world\<close>:
  \<^item> \<open>env_token\<close>: \<^verbatim>\<open>os.getenv("DROPBOX_TOKEN")\<close>;
  \<^item> \<open>getpass\<close>: what the hidden prompt returns, or the exception it raises;
  \<^item> \<open>http\<close>: the response to a request, or the exception \<^verbatim>\<open>requests\<close> raises for it;
  \<^item> \<open>open_error\<close>, \<open>write_error\<close>: the exception of \<^verbatim>\<open>open(path, "wb")\<close> or of the
    \<^verbatim>\<open>write\<close> that follows, if any; \<open>read_error\<close>: the same for reading a file that exists;
  \<^item> \<open>bg_error\<close>: for the slide of a given index, the call of the background block that
    raises, if any;
  \<^item> \<open>picture_error\<close>: the exception of \<^verbatim>\<open>add_picture\<close> for an image file, if any;
  \<^item> \<open>save_error\<close>: the exception of \<^verbatim>\<open>prs.save\<close>, if any;
  \<^item> \<open>py_repr\<close>: the text Python gives for a float, a list or a \<^verbatim>\<open>dict\<close>.
  The calls of python-pptx that the source does not guard (text boxes, paragraphs, notes)
  are taken to succeed, and to store the text they are given.

  The state is what a run changes: the lines printed, the files on disk, and the
  requests sent, in order.
\<close>

datatype bg_step = Add_shape | Fill_solid_call | Set_fore_color | Line_background

record world =
  env_token :: "str option"
  getpass :: "exn + str"
  http :: "request \<Rightarrow> exn + response"
  open_error :: "str \<Rightarrow> exn option"
  write_error :: "str \<Rightarrow> exn option"
  read_error :: "str \<Rightarrow> exn option"
  bg_error :: "nat \<Rightarrow> (bg_step \<times> exn) option"
  picture_error :: "str \<Rightarrow> exn option"
  save_error :: "exn option"
  py_repr :: "pyval \<Rightarrow> str"

record state =
  stdout :: "str list"
  files :: "str \<rightharpoonup> file_data"
  sent :: "request list"

definition print :: "str \<Rightarrow> state \<Rightarrow> state" where
  "print line st = st\<lparr>stdout := stdout st @ [line]\<rparr>"

definition send :: "world \<Rightarrow> request \<Rightarrow> state \<Rightarrow> (exn + response) \<times> state" where
  "send w rq st = (http w rq, st\<lparr>sent := sent st @ [rq]\<rparr>)"

text \<open>
  \<^verbatim>\<open>with open(path, "wb") as f: f.write(d)\<close>. A failing \<^verbatim>\<open>open\<close> leaves the disk as it was; a
  failing \<^verbatim>\<open>write\<close> leaves the file that \<^verbatim>\<open>open\<close> created, empty.
\<close>

definition write_file :: "world \<Rightarrow> str \<Rightarrow> bytes \<Rightarrow> state \<Rightarrow> (exn + unit) \<times> state" where
  "write_file w path d st =
     (case open_error w path of
        Some e \<Rightarrow> (Inl e, st)
      | None \<Rightarrow>
          (case write_error w path of
             Some e \<Rightarrow> (Inl e, st\<lparr>files := (files st)(path \<mapsto> Raw [])\<rparr>)
           | None \<Rightarrow> (Inr (), st\<lparr>files := (files st)(path \<mapsto> Raw d)\<rparr>)))"

text \<open>
  \<^verbatim>\<open>with open(path, "rb") as f: data = f.read()\<close>: a missing file raises
  \<^verbatim>\<open>FileNotFoundError\<close>.
\<close>

definition read_file :: "world \<Rightarrow> str \<Rightarrow> state \<Rightarrow> exn + file_data" where
  "read_file w path st =
     (case files st path of
        None \<Rightarrow> Inl (Exn (lit ''FileNotFoundError'') path)
      | Some d \<Rightarrow> (case read_error w path of Some e \<Rightarrow> Inl e | None \<Rightarrow> Inr d))"

definition os_path_exists :: "str \<Rightarrow> state \<Rightarrow> bool" where
  "os_path_exists path st = (files st path \<noteq> None)"

section \<open>The image fetcher\<close>

definition OUT_FILE :: str where
  "OUT_FILE = lit ''AI_in_Mobile_Phones_Droplet.pptx''"

definition IMG_DIR :: str where
  "IMG_DIR = lit ''ppt_images''"

definition IMAGE_QUERIES :: "(str \<times> str) list" where
  "IMAGE_QUERIES =
    [(lit ''title'', lit ''smartphone,technology''),
     (lit ''agenda'', lit ''icons,agenda''),
     (lit ''what_is'', lit ''mobile,ai''),
     (lit ''on_vs_cloud'', lit ''cloud,phone,diagram''),
     (lit ''hardware'', lit ''chip,npu''),
     (lit ''software'', lit ''tensorflow,code''),
     (lit ''photo_voice'', lit ''camera,voice,wave''),
     (lit ''personal_security'', lit ''face,unlock,ar''),
     (lit ''workflow'', lit ''pipeline,workflow''),
     (lit ''challenges'', lit ''warning,ethics''),
     (lit ''future'', lit ''futuristic,phone''),
     (lit ''references'', lit ''books,links'')]"

definition image_url :: "str \<Rightarrow> nat \<Rightarrow> nat \<Rightarrow> str" where
  "image_url query max_w max_h =
     lit ''https://source.unsplash.com/featured/'' @ str_nat max_w @ lit ''x'' @ str_nat max_h
     @ lit ''/?'' @ query"

text \<open>The request of \<^verbatim>\<open>requests.get(url, timeout=15)\<close>.\<close>

definition get_request :: "str \<Rightarrow> request" where
  "get_request address =
     \<lparr>meth = GET, url = address, headers = [], body = No_body, timeout = Some 15\<rparr>"

text \<open>The body of the \<^verbatim>\<open>try\<close> block of \<^verbatim>\<open>download_placeholder\<close>.\<close>

definition download_try :: "world \<Rightarrow> str \<Rightarrow> str \<Rightarrow> state \<Rightarrow> (exn + str) \<times> state" where
  "download_try w name address st =
     (case send w (get_request address) st of
        (Inl e, st1) \<Rightarrow> (Inl e, st1)
      | (Inr r, st1) \<Rightarrow>
          (case raise_for_status r of
             Inl e \<Rightarrow> (Inl e, st1)
           | Inr _ \<Rightarrow>
               (let path = os_path_join IMG_DIR (name @ lit ''.jpg'') in
                case write_file w path (content r) st1 of
                  (Inl e, st2) \<Rightarrow> (Inl e, st2)
                | (Inr _, st2) \<Rightarrow> (Inr path, st2))))"

text \<open>The line the handler of \<^verbatim>\<open>download_placeholder\<close> prints.\<close>

definition download_warning :: "str \<Rightarrow> exn \<Rightarrow> str" where
  "download_warning name e = lit ''[!] image download failed for '' @ name @ lit '': '' @ exn_str e"

definition download_placeholder ::
  "world \<Rightarrow> str \<Rightarrow> str \<Rightarrow> nat \<Rightarrow> nat \<Rightarrow> state \<Rightarrow> str option \<times> state" where
  "download_placeholder w name query max_w max_h st =
     (case download_try w name (image_url query max_w max_h) st of
        (Inr path, st1) \<Rightarrow> (Some path, st1)
      | (Inl e, st1) \<Rightarrow> (None, print (download_warning name e) st1))"

section \<open>The deck builder\<close>

record slide_spec =
  title :: str
  bullets :: "str list"
  notes_str :: str
  image_key :: str

definition slides :: "slide_spec list" where
  "slides =
   [\<lparr>title = lit ''AI in Mobile Phones'',
      bullets =
       [lit ''How on-device intelligence is changing mobile experiences''],
      notes_str = lit ''Introduce yourself and objectives.'',
      image_key = lit ''title''\<rparr>,
    \<lparr>title = lit ''Agenda'',
      bullets =
       [lit ''What is mobile AI?'',
        lit ''On-device vs cloud'',
        lit ''Hardware & software'',
        lit ''Use cases'',
        lit ''Developer workflow'',
        lit ''Challenges & ethics'',
        lit ''Future trends'',
        lit ''Appendix & references''],
      notes_str = lit ''Walk through the agenda.'',
      image_key = lit ''agenda''\<rparr>,
    \<lparr>title = lit ''What is Mobile AI?'',
      bullets =
       [lit ''ML models running on/for mobile devices'',
        lit ''Goals: personalization, performance, privacy, context awareness'',
        lit ''Constraints: power, memory, latency''],
      notes_str = lit ''Define mobile AI and constraints.'',
      image_key = lit ''what_is''\<rparr>,
    \<lparr>title = lit ''On-device vs Cloud AI'',
      bullets =
       [lit ''On-device: low latency, privacy, offline capable'',
        lit ''Cloud: heavy compute, aggregated analytics, higher latency'',
        lit ''Hybrid: split execution, federated learning''],
      notes_str = lit ''Examples: wake word on-device vs heavy NLP in cloud.'',
      image_key = lit ''on_vs_cloud''\<rparr>,
    \<lparr>title = lit ''Enabling Hardware'',
      bullets =
       [lit ''NPUs, GPUs, DSPs'',
        lit ''Memory & storage; sensors (camera, mic, IMU)'',
        lit ''Sensor fusion & accelerators''],
      notes_str = lit ''Explain role of NPUs and sensors.'',
      image_key = lit ''hardware''\<rparr>,
    \<lparr>title = lit ''Enabling Software & Tooling'',
      bullets =
       [lit ''Training: TensorFlow, PyTorch'',
        lit ''Edge runtimes: TFLite, Core ML, ONNX'',
        lit ''Optimizations: quantization, pruning''],
      notes_str = lit ''Mention converters and quantization.'',
      image_key = lit ''software''\<rparr>,
    \<lparr>title = lit ''Key Use Cases '' @ [8212] @ lit '' Photography & Voice'',
      bullets =
       [lit ''Computational photography: HDR, Night Mode'',
        lit ''Voice: wake words, on-device speech recognition''],
      notes_str = lit ''Vendor examples like Pixel and Apple.'',
      image_key = lit ''photo_voice''\<rparr>,
    \<lparr>title = lit ''Key Use Cases '' @ [8212] @ lit '' Personalization, Security & AR'',
      bullets =
       [lit ''Predictive text & recommendations'',
        lit ''Face unlock & anti-spoofing'',
        lit ''AR overlays and scene understanding''],
      notes_str = lit ''Highlight privacy benefits.'',
      image_key = lit ''personal_security''\<rparr>,
    \<lparr>title = lit ''Developer Workflow'',
      bullets =
       [lit ''Train in cloud '' @ [8594] @ lit '' optimize '' @ [8594] @ lit '' convert to TFLite/CoreML/ONNX'',
        lit ''Integrate, test & profile on device, monitor & update''],
      notes_str = lit ''Profile for latency, memory and power.'',
      image_key = lit ''workflow''\<rparr>,
    \<lparr>title = lit ''Challenges & Ethics'',
      bullets =
       [lit ''Battery & thermal limits'',
        lit ''Model updates & compatibility'',
        lit ''Privacy, bias & adversarial attacks''],
      notes_str = lit ''Mitigations: differential privacy, audits.'',
      image_key = lit ''challenges''\<rparr>,
    \<lparr>title = lit ''Future Trends'',
      bullets =
       [lit ''Stronger on-device models as NPUs scale'',
        lit ''Continuous personalized on-device learning'',
        lit ''Multimodal AI and privacy-first architectures''],
      notes_str = lit ''Suggest student project ideas.'',
      image_key = lit ''future''\<rparr>,
    \<lparr>title = lit ''Appendix '' @ [8212] @ lit '' References & Glossary'',
      bullets =
       [lit ''TensorFlow Lite: https://www.tensorflow.org/lite'',
        lit ''Core ML: https://developer.apple.com/documentation/coreml'',
        lit ''ONNX Runtime: https://onnxruntime.ai'',
        lit ''Paper: Federated Learning (McMahan et al.)''],
      notes_str = lit ''References and glossary.'',
      image_key = lit ''references''\<rparr>]"

text \<open>
  Text frames are lists of paragraphs. \<^verbatim>\<open>add_textbox\<close> gives a frame with one empty
  paragraph, \<^verbatim>\<open>clear\<close> keeps the first paragraph without its text, and \<^verbatim>\<open>add_paragraph\<close>
  appends an empty one.
\<close>

definition empty_par :: par where
  "empty_par = \<lparr>par_text = [], par_font = \<lparr>font_size = None, font_bold = None, font_color = None\<rparr>\<rparr>"

definition new_text_frame :: "par list" where
  "new_text_frame = [empty_par]"

definition clear :: "par list \<Rightarrow> par list" where
  "clear tf = (case tf of [] \<Rightarrow> [] | p # _ \<Rightarrow> [p\<lparr>par_text := []\<rparr>])"

definition TITLE_RGB :: rgb where
  "TITLE_RGB = RGBColor 0x00 0x6D 0x75"

definition slide_width :: nat where
  "slide_width = 1000"

definition slide_height :: nat where
  "slide_height = 750"

text \<open>
  The background block. The world says which of its four calls raises, if any; the
  handler is \<^verbatim>\<open>except Exception: pass\<close>, so the block prints nothing and leaves on the slide
  what the calls before the failing one did.
\<close>

definition draw_background :: "world \<Rightarrow> nat \<Rightarrow> shape list \<Rightarrow> shape list" where
  "draw_background w i shp =
     (let g = \<lparr>g_left = 0, g_top = 0, g_width = slide_width, g_height = slide_height\<rparr>;
          c = RGBColor 0x00 0x8A 0x92 in
      case bg_error w i of
        None \<Rightarrow> shp @ [Auto_shape 1 g (Fill_solid (Some c)) Fill_background]
      | Some (Add_shape, e) \<Rightarrow> shp
      | Some (Fill_solid_call, e) \<Rightarrow> shp @ [Auto_shape 1 g Fill_inherited Fill_inherited]
      | Some (Set_fore_color, e) \<Rightarrow> shp @ [Auto_shape 1 g (Fill_solid None) Fill_inherited]
      | Some (Line_background, e) \<Rightarrow> shp @ [Auto_shape 1 g (Fill_solid (Some c)) Fill_inherited])"

definition title_box :: "slide_spec \<Rightarrow> shape" where
  "title_box s =
     (let tf = clear new_text_frame;
          p = (tf ! 0)\<lparr>par_text := title s\<rparr>;
          p = p\<lparr>par_font := (par_font p)\<lparr>font_size := Some 34, font_bold := Some True,
                                          font_color := Some TITLE_RGB\<rparr>\<rparr>
      in Text_box \<lparr>g_left = 50, g_top = 40, g_width = 900, g_height = 120\<rparr> (tf[0 := p]))"

definition bullet_font :: "par \<Rightarrow> par" where
  "bullet_font p =
     p\<lparr>par_font := (par_font p)\<lparr>font_size := Some 18, font_color := Some (RGBColor 255 255 255)\<rparr>\<rparr>"

text \<open>The loop over the bullets, with its flag \<open>first\<close>.\<close>

fun add_bullets :: "par list \<Rightarrow> bool \<Rightarrow> str list \<Rightarrow> par list" where
  "add_bullets btf first [] = btf"
| "add_bullets btf first (b # bs) =
     (if first then add_bullets (btf[0 := bullet_font ((btf ! 0)\<lparr>par_text := b\<rparr>)]) False bs
      else add_bullets (btf @ [bullet_font (empty_par\<lparr>par_text := b\<rparr>)]) False bs)"

definition body_box :: "slide_spec \<Rightarrow> shape" where
  "body_box s =
     Text_box \<lparr>g_left = 50, g_top = 180, g_width = 530, g_height = 460\<rparr>
       (add_bullets new_text_frame True (bullets s))"

definition footer_text :: str where
  "footer_text = lit ''AI in Mobile Phones '' @ [8212] @ lit '' Droplet theme''"

text \<open>The caption has no line break, so assigning it leaves one paragraph.\<close>

definition footer_box :: shape where
  "footer_box =
     Text_box \<lparr>g_left = 50, g_top = 655, g_width = 900, g_height = 40\<rparr>
       [empty_par\<lparr>par_text := footer_text\<rparr>]"

text \<open>\<^verbatim>\<open>image_paths.get(k)\<close>: \<open>None\<close> for a missing key and for a key stored with \<open>None\<close>.\<close>

definition dict_get :: "('k \<rightharpoonup> 'v option) \<Rightarrow> 'k \<Rightarrow> 'v option" where
  "dict_get d k = (case d k of None \<Rightarrow> None | Some v \<Rightarrow> v)"

text \<open>
  The image block: the picture is placed at 6.2 by 1.6 inches, 3.4 inches wide, when the
  path is neither \<open>None\<close> nor empty and the file exists; a failing \<^verbatim>\<open>add_picture\<close> is printed
  and adds nothing.
\<close>

definition insert_failed_line :: "exn \<Rightarrow> str" where
  "insert_failed_line e = lit ''[!] insert image failed: '' @ exn_str e"

definition insert_image ::
  "world \<Rightarrow> str option \<Rightarrow> shape list \<Rightarrow> state \<Rightarrow> shape list \<times> state" where
  "insert_image w ip shp st =
     (case ip of
        None \<Rightarrow> (shp, st)
      | Some path \<Rightarrow>
          if path \<noteq> [] \<and> os_path_exists path st then
            (case picture_error w path of
               None \<Rightarrow> (shp @ [Picture path 620 160 340], st)
             | Some e \<Rightarrow> (shp, print (insert_failed_line e) st))
          else (shp, st))"

text \<open>The body of the loop over the slide table, for the descriptor \<open>s\<close> at index \<open>i\<close>.\<close>

definition build_slide ::
  "world \<Rightarrow> (str \<rightharpoonup> str option) \<Rightarrow> nat \<Rightarrow> slide_spec \<Rightarrow> state \<Rightarrow> slide \<times> state" where
  "build_slide w image_paths i s st =
     (let shp = draw_background w i [];
          shp = shp @ [title_box s];
          shp = shp @ [body_box s];
          ip = dict_get image_paths (image_key s);
          (shp, st1) = insert_image w ip shp st;
          shp = shp @ [footer_box]
      in (\<lparr>shapes = shp, notes_text = notes_str s\<rparr>, st1))"

fun build_slides ::
  "world \<Rightarrow> (str \<rightharpoonup> str option) \<Rightarrow> nat \<Rightarrow> slide_spec list \<Rightarrow> slide list \<Rightarrow> state
   \<Rightarrow> slide list \<times> state" where
  "build_slides w image_paths i [] deck st = (deck, st)"
| "build_slides w image_paths i (s # ss) deck st =
     (case build_slide w image_paths i s st of
        (sl, st1) \<Rightarrow> build_slides w image_paths (Suc i) ss (deck @ [sl]) st1)"

definition build_presentation ::
  "world \<Rightarrow> (str \<rightharpoonup> str option) \<Rightarrow> state \<Rightarrow> (exn + unit) \<times> state" where
  "build_presentation w image_paths st =
     (case build_slides w image_paths 0 slides [] st of
        (deck, st1) \<Rightarrow>
          (case save_error w of
             Some e \<Rightarrow> (Inl e, st1)
           | None \<Rightarrow>
               (Inr (), print (lit ''[+] Saved presentation to '' @ OUT_FILE)
                          (st1\<lparr>files := (files st1)(OUT_FILE \<mapsto> Pptx deck)\<rparr>))))"

section \<open>The uploader\<close>

definition upload_request :: "str \<Rightarrow> file_data \<Rightarrow> str \<Rightarrow> request" where
  "upload_request token d dest_path =
     \<lparr>meth = POST,
      url = lit ''https://content.dropboxapi.com/2/files/upload'',
      headers =
        [(lit ''Authorization'', lit ''Bearer '' @ token),
         (lit ''Dropbox-API-Arg'',
          lit ''{\"path\": \"'' @ dest_path
          @ lit ''\", \"mode\": \"overwrite\", \"autorename\": false, \"mute\": false}''),
         (lit ''Content-Type'', lit ''application/octet-stream'')],
      body = Data d,
      timeout = None\<rparr>"

definition share_request :: "str \<Rightarrow> str \<Rightarrow> request" where
  "share_request token dest_path =
     \<lparr>meth = POST,
      url = lit ''https://api.dropboxapi.com/2/sharing/create_shared_link_with_settings'',
      headers =
        [(lit ''Authorization'', lit ''Bearer '' @ token),
         (lit ''Content-Type'', lit ''application/json'')],
      body = Json (PDict
        [(lit ''path'', PStr dest_path),
         (lit ''settings'', PDict [(lit ''requested_visibility'', PStr (lit ''public''))])]),
      timeout = None\<rparr>"

text \<open>
  The rewriting of the link: when the link is true and \<^verbatim>\<open>dl=0\<close> is in it, every \<^verbatim>\<open>?dl=0\<close> is
  replaced by \<^verbatim>\<open>?dl=1\<close>. The test and the replacement raise for a link of a type that does
  not support them.
\<close>

definition convert_link :: "pyval \<Rightarrow> exn + pyval" where
  "convert_link link =
     (if py_truthy link then
        (case py_in (lit ''dl=0'') link of
           Inl e \<Rightarrow> Inl e
         | Inr found \<Rightarrow>
             if found then py_replace (lit ''?dl=0'') (lit ''?dl=1'') link else Inr link)
      else Inr link)"

text \<open>
  The link for a share-link response: \<^verbatim>\<open>r2.json().get("url")\<close>, rewritten.
\<close>

definition share_link :: "response \<Rightarrow> exn + pyval" where
  "share_link r2 =
     (case json_body r2 of
        Inl e \<Rightarrow> Inl e
      | Inr j \<Rightarrow>
          (case py_get j (lit ''url'') of
             Inl e \<Rightarrow> Inl e
           | Inr link \<Rightarrow> convert_link link))"

text \<open>\<^verbatim>\<open>str(n)\<close> for an integer, and \<^verbatim>\<open>str(link)\<close> as \<^verbatim>\<open>print\<close> shows it.\<close>

definition str_int :: "int \<Rightarrow> str" where
  "str_int n = (if n < 0 then 45 # str_nat (nat (- n)) else str_nat (nat n))"

definition str_link :: "world \<Rightarrow> pyval \<Rightarrow> str" where
  "str_link w link =
     (case link of
        PNone \<Rightarrow> lit ''None''
      | PBool b \<Rightarrow> (if b then lit ''True'' else lit ''False'')
      | PInt n \<Rightarrow> str_int n
      | PStr x \<Rightarrow> x
      | _ \<Rightarrow> py_repr w link)"

text \<open>The lines \<^verbatim>\<open>upload_to_dropbox\<close> prints; \<^verbatim>\<open>print\<close> joins its arguments with a space.\<close>

definition upload_failed_line :: "response \<Rightarrow> str" where
  "upload_failed_line r =
     lit ''[!] Dropbox upload failed: '' @ str_nat (status_code r) @ lit '' '' @ resp_text r"

definition uploaded_line :: "str \<Rightarrow> str" where
  "uploaded_line dest_path = lit ''[+] Uploaded to Dropbox: '' @ dest_path"

definition shareable_line :: "world \<Rightarrow> pyval \<Rightarrow> str" where
  "shareable_line w link = lit ''[+] Shareable link: '' @ str_link w link"

definition share_failed_line :: "response \<Rightarrow> str" where
  "share_failed_line r =
     lit ''[!] create_shared_link failed: '' @ str_nat (status_code r) @ lit '' '' @ resp_text r"

definition upload_to_dropbox ::
  "world \<Rightarrow> str \<Rightarrow> str \<Rightarrow> str \<Rightarrow> state \<Rightarrow> (exn + pyval) \<times> state" where
  "upload_to_dropbox w token local_path dest_path st =
     (case read_file w local_path st of
        Inl e \<Rightarrow> (Inl e, st)
      | Inr d \<Rightarrow>
          (case send w (upload_request token d dest_path) st of
             (Inl e, st1) \<Rightarrow> (Inl e, st1)
           | (Inr r, st1) \<Rightarrow>
               if status_code r \<notin> set [200, 201] then
                 (Inr PNone, print (upload_failed_line r) st1)
               else
                 (let st2 = print (uploaded_line dest_path) st1 in
                  case send w (share_request token dest_path) st2 of
                    (Inl e, st3) \<Rightarrow> (Inl e, st3)
                  | (Inr r2, st3) \<Rightarrow>
                      if status_code r2 \<in> set [200, 201] then
                        (case share_link r2 of
                           Inl e \<Rightarrow> (Inl e, st3)
                         | Inr link \<Rightarrow> (Inr link, print (shareable_line w link) st3))
                      else (Inr PNone, print (share_failed_line r2) st3))))"

section \<open>The top-level flow\<close>

text \<open>
  The token: the environment variable when it is set and not empty, the stripped input
  of the hidden prompt otherwise.
\<close>

definition get_token :: "world \<Rightarrow> exn + str" where
  "get_token w =
     (case env_token w of
        Some token \<Rightarrow>
          if token \<noteq> [] then Inr token
          else (case getpass w of Inl e \<Rightarrow> Inl e | Inr x \<Rightarrow> Inr (strip x))
      | None \<Rightarrow> (case getpass w of Inl e \<Rightarrow> Inl e | Inr x \<Rightarrow> Inr (strip x)))"

text \<open>The loop over \<^verbatim>\<open>IMAGE_QUERIES.items()\<close>, filling \<^verbatim>\<open>image_paths\<close>.\<close>

fun download_all ::
  "world \<Rightarrow> (str \<times> str) list \<Rightarrow> (str \<rightharpoonup> str option) \<Rightarrow> state
   \<Rightarrow> (str \<rightharpoonup> str option) \<times> state" where
  "download_all w [] image_paths st = (image_paths, st)"
| "download_all w ((k, q) # kqs) image_paths st =
     (case download_placeholder w k q 1600 900 st of
        (p, st1) \<Rightarrow> download_all w kqs (image_paths(k \<mapsto> p)) st1)"

definition DEST_PATH :: str where
  "DEST_PATH = lit ''/AI_in_Mobile_Phones_Droplet.pptx''"

definition done_message :: str where
  "done_message = [10] @ lit ''Done. Use the link above to download the PPTX.''"

definition issues_message :: str where
  "issues_message = [10] @ lit ''Upload completed with issues. Check errors above.''"

text \<open>
  \<^verbatim>\<open>main\<close>, from a state in which the module-level \<^verbatim>\<open>os.makedirs\<close> has run. \<open>DEST_PATH\<close> is the
  default of the parameter \<^verbatim>\<open>dest_path\<close>, which the call leaves out.
\<close>

definition main :: "world \<Rightarrow> state \<Rightarrow> (exn + unit) \<times> state" where
  "main w st =
     (case get_token w of
        Inl e \<Rightarrow> (Inl e, st)
      | Inr token \<Rightarrow>
          (let st1 = print (lit ''Downloading images...'') st;
               (image_paths, st2) = download_all w IMAGE_QUERIES Map.empty st1;
               st3 = print (lit ''Building presentation...'') st2
           in case build_presentation w image_paths st3 of
                (Inl e, st4) \<Rightarrow> (Inl e, st4)
              | (Inr _, st4) \<Rightarrow>
                  (let st5 = print (lit ''Uploading to Dropbox...'') st4
                   in case upload_to_dropbox w token OUT_FILE DEST_PATH st5 of
                        (Inl e, st6) \<Rightarrow> (Inl e, st6)
                      | (Inr link, st6) \<Rightarrow>
                          if py_truthy link
                          then (Inr (), print done_message st6)
                          else (Inr (), print issues_message st6))))"

section \<open>Observations\<close>

text \<open>
  What the properties below read off a run: the requests a run added to the trace, whether a
  request is a POST, its \<^verbatim>\<open>Authorization\<close> and \<^verbatim>\<open>Dropbox-API-Arg\<close> headers, the upload requests
  among a list of requests, and the last line \<^verbatim>\<open>main\<close> prints for a link.
\<close>

definition new_requests :: "state \<Rightarrow> state \<Rightarrow> request list" where
  "new_requests st st' = drop (length (sent st)) (sent st')"

definition is_post :: "request \<Rightarrow> bool" where
  "is_post rq = (meth rq = POST)"

definition authorization :: "request \<Rightarrow> str option" where
  "authorization rq = map_of (headers rq) (lit ''Authorization'')"

definition api_arg :: "request \<Rightarrow> str option" where
  "api_arg rq = map_of (headers rq) (lit ''Dropbox-API-Arg'')"

definition uploads :: "request list \<Rightarrow> request list" where
  "uploads rqs = filter (\<lambda>rq. url rq = lit ''https://content.dropboxapi.com/2/files/upload'') rqs"

definition image_requests :: "request list" where
  "image_requests = map (\<lambda>(k, q). get_request (image_url q 1600 900)) IMAGE_QUERIES"

definition final_message :: "pyval \<Rightarrow> str" where
  "final_message link = (if py_truthy link then done_message else issues_message)"

text \<open>
  What the properties read off a slide: the paragraph texts of its text boxes and the paths
  of its pictures, in the order of the shapes; and the deck \<^verbatim>\<open>build_presentation\<close> has
  assembled when it calls \<^verbatim>\<open>save\<close>.
\<close>

fun shape_texts :: "shape \<Rightarrow> str list list" where
  "shape_texts (Text_box g ps) = [map par_text ps]"
| "shape_texts (Auto_shape k g f l) = []"
| "shape_texts (Picture path l t w) = []"

fun shape_pictures :: "shape \<Rightarrow> str list" where
  "shape_pictures (Picture path l t w) = [path]"
| "shape_pictures (Auto_shape k g f l) = []"
| "shape_pictures (Text_box g ps) = []"

definition text_boxes :: "slide \<Rightarrow> str list list" where
  "text_boxes sl = concat (map shape_texts (shapes sl))"

definition pictures :: "slide \<Rightarrow> str list" where
  "pictures sl = concat (map shape_pictures (shapes sl))"

definition deck_of :: "world \<Rightarrow> (str \<rightharpoonup> str option) \<Rightarrow> state \<Rightarrow> slide list" where
  "deck_of w image_paths st = fst (build_slides w image_paths 0 slides [] st)"

text \<open>
  The paragraphs of a body box: one per bullet, and the empty paragraph of the fresh text
  frame when there is no bullet.
\<close>

definition body_paragraphs :: "str list \<Rightarrow> str list" where
  "body_paragraphs bs = (if bs = [] then [[]] else bs)"

section \<open>The storage service\<close>

text \<open>
  The storage service, for the one kind of upload the program sends. The service is not
  part of the program; this is the behaviour its interface documents for an argument that
  names a path with mode \<^verbatim>\<open>overwrite\<close> and \<^verbatim>\<open>autorename\<close> false: the body becomes the file at
  that path, replacing the file that was there. \<open>overwrite_path\<close> reads the path off such
  an argument; a request of another shape is outside the model (\<open>None\<close>).
\<close>

fun strip_prefix :: "str \<Rightarrow> str \<Rightarrow> str option" where
  "strip_prefix [] ys = Some ys"
| "strip_prefix (x # xs) [] = None"
| "strip_prefix (x # xs) (y # ys) = (if x = y then strip_prefix xs ys else None)"

definition overwrite_path :: "str \<Rightarrow> str option" where
  "overwrite_path arg =
     (case strip_prefix (lit ''{\"path\": \"'') arg of
        None \<Rightarrow> None
      | Some rest \<Rightarrow>
          (let p = takeWhile (\<lambda>c. c \<noteq> 34) rest in
           if 92 \<notin> set p
              \<and> dropWhile (\<lambda>c. c \<noteq> 34) rest
                  = lit ''\", \"mode\": \"overwrite\", \"autorename\": false, \"mute\": false}''
           then Some p else None))"

definition dropbox_upload :: "request \<Rightarrow> (str \<rightharpoonup> file_data) \<Rightarrow> (str \<rightharpoonup> file_data) option" where
  "dropbox_upload rq remote =
     (case (api_arg rq, body rq) of
        (Some arg, Data d) \<Rightarrow>
          (case overwrite_path arg of Some p \<Rightarrow> Some (remote(p \<mapsto> d)) | None \<Rightarrow> None)
      | _ \<Rightarrow> None)"

section \<open>Worlds and states for concrete runs\<close>

text \<open>
  \<open>demo_world\<close> answers every request with \<open>h\<close> and lets every call of the file system and
  of python-pptx succeed; \<open>fresh\<close> is the state of a first run, \<open>saved\<close> one with a saved
  deck on disk, \<open>with_title_image\<close> one with the image of the first slide on disk.
\<close>

definition demo_world :: "str option \<Rightarrow> exn + str \<Rightarrow> (request \<Rightarrow> exn + response) \<Rightarrow> world" where
  "demo_world tok pw h =
     \<lparr>env_token = tok, getpass = pw, http = h,
      open_error = (\<lambda>_. None), write_error = (\<lambda>_. None), read_error = (\<lambda>_. None),
      bg_error = (\<lambda>_. None), picture_error = (\<lambda>_. None), save_error = None,
      py_repr = (\<lambda>_. [])\<rparr>"

definition fresh :: state where
  "fresh = \<lparr>stdout = [], files = Map.empty, sent = []\<rparr>"

definition saved :: state where
  "saved = \<lparr>stdout = [], files = [OUT_FILE \<mapsto> Pptx []], sent = []\<rparr>"

definition title_image :: str where
  "title_image = lit ''ppt_images/title.jpg''"

definition with_title_image :: state where
  "with_title_image = \<lparr>stdout = [], files = [title_image \<mapsto> Raw [255, 216, 255]], sent = []\<rparr>"

definition refused :: exn where
  "refused = Exn (lit ''ConnectionError'') (lit ''connection refused'')"

text \<open>
  Responses: a success carrying a share link, a refusal of the credential, a status 300,
  which \<^verbatim>\<open>requests\<close> hands back as it is, and a status 204. \<open>modern_link\<close> has the form of the links the
  service returns today, with \<^verbatim>\<open>dl=0\<close> after another query parameter.
\<close>

definition ok_response :: "pyval \<Rightarrow> response" where
  "ok_response link =
     \<lparr>status_code = 200, reason = lit ''OK'', resp_url = [], content = [255, 216, 255],
      resp_text = [], json_body = Inr (PDict [(lit ''url'', link)])\<rparr>"

definition denied_response :: response where
  "denied_response =
     \<lparr>status_code = 401, reason = lit ''Unauthorized'', resp_url = [], content = [],
      resp_text = lit ''invalid_access_token'', json_body = Inr (PDict [])\<rparr>"

definition multiple_choices :: response where
  "multiple_choices =
     \<lparr>status_code = 300, reason = lit ''Multiple Choices'', resp_url = [],
      content = lit ''<html>'', resp_text = lit ''<html>'',
      json_body = Inl (Exn (lit ''JSONDecodeError'') (lit ''Expecting value''))\<rparr>"

definition modern_link :: str where
  "modern_link = lit ''https://www.dropbox.com/scl/fi/k3/deck.pptx?rlkey=r7&dl=0''"

definition no_content_response :: response where
  "no_content_response =
     \<lparr>status_code = 204, reason = lit ''No Content'', resp_url = [], content = [],
      resp_text = [], json_body = Inl (Exn (lit ''JSONDecodeError'') (lit ''Expecting value''))\<rparr>"

text \<open>
  Worlds: every request granted, every request denied, every request answered with status
  300 or with status 204, the POST requests failing to connect; \<^verbatim>\<open>add_shape\<close> raising on every slide; the
  background block and \<^verbatim>\<open>add_picture\<close> raising on every slide.
\<close>

definition no_content_world :: world where
  "no_content_world = demo_world (Some (lit ''sl.A1'')) (Inr []) (\<lambda>_. Inr no_content_response)"

definition granted_world :: world where
  "granted_world = demo_world (Some (lit ''sl.A1'')) (Inr []) (\<lambda>_. Inr (ok_response (PStr modern_link)))"

definition denied_world :: world where
  "denied_world = demo_world (Some (lit ''sl.A1'')) (Inr []) (\<lambda>_. Inr denied_response)"

definition redirect_world :: world where
  "redirect_world = demo_world None (Inr []) (\<lambda>_. Inr multiple_choices)"

definition unreachable_world :: world where
  "unreachable_world =
     demo_world (Some (lit ''sl.A1'')) (Inr [])
       (\<lambda>rq. if is_post rq then Inl refused else Inr (ok_response PNone))"

definition no_background_world :: world where
  "no_background_world =
     (demo_world None (Inr []) (\<lambda>_. Inl refused))\<lparr>bg_error := (\<lambda>_. Some (Add_shape, refused))\<rparr>"

definition failing_world :: world where
  "failing_world =
     (demo_world None (Inr []) (\<lambda>_. Inl refused))
       \<lparr>bg_error := (\<lambda>_. Some (Fill_solid_call, refused)),
        picture_error := (\<lambda>_. Some refused)\<rparr>"

text \<open>The descriptor of the example scenario: one slide, two bullets, an image.\<close>

definition agenda_example :: slide_spec where
  "agenda_example =
     \<lparr>title = lit ''Agenda'', bullets = [lit ''A'', lit ''B''], notes_str = lit ''x'',
      image_key = lit ''agenda''\<rparr>"

text \<open>
  An image map of a run in which the first download failed and the second image has since
  been removed: the key of the first slide is stored with \<open>None\<close>, the key of the second
  with a path that names no file of \<open>with_title_image\<close>.
\<close>

definition absent_images :: "str \<rightharpoonup> str option" where
  "absent_images = [lit ''title'' \<mapsto> None, lit ''agenda'' \<mapsto> Some (lit ''ppt_images/agenda.jpg'')]"

section \<open>Properties\<close>

subsection \<open>The requests of a run\<close>

lemma sent_print [simp]: "sent (print l st) = sent st"
  and files_print [simp]: "files (print l st) = files st"
  and stdout_print [simp]: "stdout (print l st) = stdout st @ [l]"
  by (simp_all add: print_def)

lemma download_try_sent:
  "download_try w name address st = (res, st') \<Longrightarrow> sent st' = sent st @ [get_request address]"
  by (auto simp: download_try_def send_def Let_def write_file_def split: sum.splits option.splits prod.splits)

lemma download_placeholder_sent:
  "download_placeholder w name query max_w max_h st = (res, st') \<Longrightarrow>
   sent st' = sent st @ [get_request (image_url query max_w max_h)]"
  by (auto simp: download_placeholder_def split: prod.splits sum.splits dest: download_try_sent)

lemma download_all_sent:
  "download_all w kqs ips st = (ips', st') \<Longrightarrow>
   sent st' = sent st @ map (\<lambda>(k, q). get_request (image_url q 1600 900)) kqs"
proof (induction kqs arbitrary: ips st)
  case Nil
  then show ?case by simp
next
  case (Cons kq kqs)
  obtain k q where kq: "kq = (k, q)" by (cases kq)
  obtain p st1 where d: "download_placeholder w k q 1600 900 st = (p, st1)"
    by (cases "download_placeholder w k q 1600 900 st")
  from Cons.prems kq d have rest: "download_all w kqs (ips(k \<mapsto> p)) st1 = (ips', st')"
    by simp
  have "sent st1 = sent st @ [get_request (image_url q 1600 900)]"
    using d by (rule download_placeholder_sent)
  moreover have "sent st' = sent st1 @ map (\<lambda>(k, q). get_request (image_url q 1600 900)) kqs"
    using rest by (rule Cons.IH)
  ultimately show ?case using kq by simp
qed

lemma insert_image_sent:
  "insert_image w ip shp st = (shp', st') \<Longrightarrow> sent st' = sent st"
  by (auto simp: insert_image_def split: option.splits if_splits)

lemma build_slide_sent: "build_slide w ips i s st = (sl, st') \<Longrightarrow> sent st' = sent st"
  by (auto simp: build_slide_def Let_def split: prod.splits dest: insert_image_sent)

lemma build_slides_sent:
  "build_slides w ips i ss deck st = (deck', st') \<Longrightarrow> sent st' = sent st"
proof (induction ss arbitrary: i deck st)
  case Nil
  then show ?case by simp
next
  case (Cons s ss)
  obtain sl st1 where b: "build_slide w ips i s st = (sl, st1)"
    by (cases "build_slide w ips i s st")
  from Cons.prems b have rest: "build_slides w ips (Suc i) ss (deck @ [sl]) st1 = (deck', st')"
    by simp
  have "sent st' = sent st1" using rest by (rule Cons.IH)
  then show ?case using build_slide_sent [OF b] by simp
qed

lemma build_presentation_sent:
  "build_presentation w ips st = (res, st') \<Longrightarrow> sent st' = sent st"
  by (auto simp: build_presentation_def split: prod.splits option.splits dest: build_slides_sent)

lemma upload_to_dropbox_sent:
  "upload_to_dropbox w token local_path dest_path st = (res, st') \<Longrightarrow>
   \<exists>d. sent st' = sent st
     \<or> sent st' = sent st @ [upload_request token d dest_path]
     \<or> sent st' = sent st @ [upload_request token d dest_path, share_request token dest_path]"
  by (auto simp: upload_to_dropbox_def send_def Let_def split: sum.splits prod.splits if_splits)

lemma main_sent:
  assumes tok: "get_token w = Inr tok" and run: "main w st = (res, st')"
  shows "\<exists>d posts. sent st' = sent st @ image_requests @ posts
           \<and> posts \<in> {[], [upload_request tok d DEST_PATH],
                        [upload_request tok d DEST_PATH, share_request tok DEST_PATH]}"
proof -
  obtain ips st2 where dl: "download_all w IMAGE_QUERIES Map.empty (print (lit ''Downloading images...'') st) = (ips, st2)"
    by (cases "download_all w IMAGE_QUERIES Map.empty (print (lit ''Downloading images...'') st)")
  have s2: "sent st2 = sent st @ image_requests"
    using download_all_sent [OF dl] by (simp add: image_requests_def)
  obtain r4 st4 where bp: "build_presentation w ips (print (lit ''Building presentation...'') st2) = (r4, st4)"
    by (cases "build_presentation w ips (print (lit ''Building presentation...'') st2)")
  have s4: "sent st4 = sent st2" using build_presentation_sent [OF bp] by simp
  show ?thesis
  proof (cases r4)
    case (Inl e)
    with run tok dl bp have "st' = st4" by (simp add: main_def)
    with s4 s2 show ?thesis by simp
  next
    case (Inr u)
    obtain r6 st6 where up: "upload_to_dropbox w tok OUT_FILE DEST_PATH (print (lit ''Uploading to Dropbox...'') st4) = (r6, st6)"
      by (cases "upload_to_dropbox w tok OUT_FILE DEST_PATH (print (lit ''Uploading to Dropbox...'') st4)")
    from upload_to_dropbox_sent [OF up] obtain d where
      "sent st6 = sent st4
       \<or> sent st6 = sent st4 @ [upload_request tok d DEST_PATH]
       \<or> sent st6 = sent st4 @ [upload_request tok d DEST_PATH, share_request tok DEST_PATH]"
      by auto
    moreover have "sent st' = sent st6"
      using run tok dl bp Inr up by (auto simp: main_def split: sum.splits if_splits)
    ultimately show ?thesis using s4 s2 by auto
  qed
qed

lemma image_requests_get: "filter is_post image_requests = []"
  by (simp add: image_requests_def is_post_def get_request_def filter_empty_conv split: prod.splits)

lemma authorization_upload [simp]:
  "authorization (upload_request tok d dest) = Some (lit ''Bearer '' @ tok)"
  by (simp add: authorization_def upload_request_def lit_def)

lemma authorization_share [simp]:
  "authorization (share_request tok dest) = Some (lit ''Bearer '' @ tok)"
  by (simp add: authorization_def share_request_def lit_def)

lemma is_post_upload [simp]: "is_post (upload_request tok d dest)"
  and is_post_share [simp]: "is_post (share_request tok dest)"
  by (simp_all add: is_post_def upload_request_def share_request_def)

lemma main_authorization:
  assumes tok: "get_token w = Inr tok"
  shows "set (map authorization (filter is_post (new_requests st (snd (main w st)))))
         \<subseteq> {Some (lit ''Bearer '' @ tok)}"
proof -
  obtain res st' where run: "main w st = (res, st')" by (cases "main w st")
  from main_sent [OF tok run] obtain d posts where
    s: "sent st' = sent st @ image_requests @ posts" and
    p: "posts \<in> {[], [upload_request tok d DEST_PATH],
                  [upload_request tok d DEST_PATH, share_request tok DEST_PATH]}"
    by blast
  have "filter is_post (new_requests st st') = filter is_post posts"
    using s by (simp add: new_requests_def image_requests_get)
  then show ?thesis using p run by auto
qed

subsection \<open>The branches of the uploader\<close>

lemma upload_unreadable:
  "read_file w local_path st = Inl e \<Longrightarrow>
   upload_to_dropbox w token local_path dest_path st = (Inl e, st)"
  by (simp add: upload_to_dropbox_def)

lemma upload_raises:
  "read_file w local_path st = Inr d \<Longrightarrow> http w (upload_request token d dest_path) = Inl e \<Longrightarrow>
   upload_to_dropbox w token local_path dest_path st
   = (Inl e, st\<lparr>sent := sent st @ [upload_request token d dest_path]\<rparr>)"
  by (simp add: upload_to_dropbox_def send_def)

lemma upload_refused:
  "read_file w local_path st = Inr d \<Longrightarrow> http w (upload_request token d dest_path) = Inr r \<Longrightarrow>
   status_code r \<noteq> 200 \<Longrightarrow> status_code r \<noteq> 201 \<Longrightarrow>
   upload_to_dropbox w token local_path dest_path st
   = (Inr PNone, st\<lparr>sent := sent st @ [upload_request token d dest_path],
                     stdout := stdout st @ [upload_failed_line r]\<rparr>)"
  by (simp add: upload_to_dropbox_def send_def print_def)

lemma share_raises:
  "read_file w local_path st = Inr d \<Longrightarrow> http w (upload_request token d dest_path) = Inr r \<Longrightarrow>
   status_code r = 200 \<or> status_code r = 201 \<Longrightarrow>
   http w (share_request token dest_path) = Inl e \<Longrightarrow>
   upload_to_dropbox w token local_path dest_path st
   = (Inl e, st\<lparr>sent := sent st @ [upload_request token d dest_path, share_request token dest_path],
                 stdout := stdout st @ [uploaded_line dest_path]\<rparr>)"
  by (auto simp: upload_to_dropbox_def send_def print_def Let_def)

lemma share_refused:
  "read_file w local_path st = Inr d \<Longrightarrow> http w (upload_request token d dest_path) = Inr r \<Longrightarrow>
   status_code r = 200 \<or> status_code r = 201 \<Longrightarrow>
   http w (share_request token dest_path) = Inr r2 \<Longrightarrow>
   status_code r2 \<noteq> 200 \<Longrightarrow> status_code r2 \<noteq> 201 \<Longrightarrow>
   upload_to_dropbox w token local_path dest_path st
   = (Inr PNone, st\<lparr>sent := sent st @ [upload_request token d dest_path, share_request token dest_path],
                     stdout := stdout st @ [uploaded_line dest_path, share_failed_line r2]\<rparr>)"
  by (auto simp: upload_to_dropbox_def send_def print_def Let_def)

lemma share_link_raises:
  "read_file w local_path st = Inr d \<Longrightarrow> http w (upload_request token d dest_path) = Inr r \<Longrightarrow>
   status_code r = 200 \<or> status_code r = 201 \<Longrightarrow>
   http w (share_request token dest_path) = Inr r2 \<Longrightarrow>
   status_code r2 = 200 \<or> status_code r2 = 201 \<Longrightarrow> share_link r2 = Inl e \<Longrightarrow>
   upload_to_dropbox w token local_path dest_path st
   = (Inl e, st\<lparr>sent := sent st @ [upload_request token d dest_path, share_request token dest_path],
                 stdout := stdout st @ [uploaded_line dest_path]\<rparr>)"
  by (auto simp: upload_to_dropbox_def send_def print_def Let_def)

lemma share_granted:
  "read_file w local_path st = Inr d \<Longrightarrow> http w (upload_request token d dest_path) = Inr r \<Longrightarrow>
   status_code r = 200 \<or> status_code r = 201 \<Longrightarrow>
   http w (share_request token dest_path) = Inr r2 \<Longrightarrow>
   status_code r2 = 200 \<or> status_code r2 = 201 \<Longrightarrow> share_link r2 = Inr link \<Longrightarrow>
   upload_to_dropbox w token local_path dest_path st
   = (Inr link,
      st\<lparr>sent := sent st @ [upload_request token d dest_path, share_request token dest_path],
         stdout := stdout st @ [uploaded_line dest_path, shareable_line w link]\<rparr>)"
  by (auto simp: upload_to_dropbox_def send_def print_def Let_def)

text \<open>
  Whatever happens after it, the upload request is the first thing the uploader sends once
  the file is read, and the share-link request is the only thing that can follow it.
\<close>

lemma upload_sends:
  assumes "read_file w local_path st = Inr d"
  shows "\<exists>rest. sent (snd (upload_to_dropbox w token local_path dest_path st))
                = sent st @ upload_request token d dest_path # rest
              \<and> (rest = [] \<or> rest = [share_request token dest_path])"
  using assms
  by (auto simp: upload_to_dropbox_def send_def print_def Let_def split: sum.splits)

lemma new_requests_append [simp]: "new_requests st (st\<lparr>sent := sent st @ rqs, stdout := out\<rparr>) = rqs"
  by (simp add: new_requests_def)

lemma str_nat_204: "str_nat 204 = lit ''204''"
  by (simp add: str_nat.simps [of 204] str_nat.simps [of 20] str_nat.simps [of 2] lit_def)

lemma str_nat_401: "str_nat 401 = lit ''401''"
  by (simp add: str_nat.simps [of 401] str_nat.simps [of 40] str_nat.simps [of 4] lit_def)

lemma read_saved_deck: "read_file (demo_world tok pw h) OUT_FILE saved = Inr (Pptx [])"
  by (simp add: read_file_def demo_world_def saved_def)

text \<open>
  Claim C7 as stated fails: success is a status from 200 to 299, and the code goes on for
  200 and 201 only. An upload answered with 204 is printed as failed, the function returns
  \<open>None\<close>, and no share-link request is sent.
\<close>

theorem upload_no_content_not_followed:
  "status_code no_content_response = 204
   \<and> upload_to_dropbox no_content_world (lit ''sl.A1'') OUT_FILE DEST_PATH saved
     = (Inr PNone,
        \<lparr>stdout = [lit ''[!] Dropbox upload failed: 204 ''], files = [OUT_FILE \<mapsto> Pptx []],
         sent = [upload_request (lit ''sl.A1'') (Pptx []) DEST_PATH]\<rparr>)"
proof -
  have r: "read_file no_content_world OUT_FILE saved = Inr (Pptx [])"
    unfolding no_content_world_def by (rule read_saved_deck)
  have h: "http no_content_world (upload_request (lit ''sl.A1'') (Pptx []) DEST_PATH)
           = Inr no_content_response"
    by (simp add: no_content_world_def demo_world_def)
  have s: "status_code no_content_response = 204"
    by (simp add: no_content_response_def)
  have l: "upload_failed_line no_content_response = lit ''[!] Dropbox upload failed: 204 ''"
    by (simp add: upload_failed_line_def no_content_response_def str_nat_204 lit_def)
  have "upload_to_dropbox no_content_world (lit ''sl.A1'') OUT_FILE DEST_PATH saved
        = (Inr PNone,
           saved\<lparr>sent := sent saved @ [upload_request (lit ''sl.A1'') (Pptx []) DEST_PATH],
                  stdout := stdout saved @ [upload_failed_line no_content_response]\<rparr>)"
    using r h by (rule upload_refused) (simp_all add: s)
  then show ?thesis by (simp add: s l saved_def)
qed

text \<open>
  Claim C7, amended. When the response to the upload has a status other than 200 and 201,
  \<^verbatim>\<open>upload_to_dropbox\<close> prints the status and the body, returns \<open>None\<close> and sends no second
  request; when the status is 200 or 201 it goes on to send the share-link request.
\<close>

theorem upload_status_decides:
  assumes "read_file w local_path st = Inr d"
      and "http w (upload_request token d dest_path) = Inr r"
  shows "(status_code r \<notin> {200, 201} \<longrightarrow>
            upload_to_dropbox w token local_path dest_path st
            = (Inr PNone, st\<lparr>sent := sent st @ [upload_request token d dest_path],
                              stdout := stdout st @ [upload_failed_line r]\<rparr>))
       \<and> (status_code r \<in> {200, 201} \<longrightarrow>
            new_requests st (snd (upload_to_dropbox w token local_path dest_path st))
            = [upload_request token d dest_path, share_request token dest_path])"
proof (intro conjI impI)
  assume "status_code r \<notin> {200, 201}"
  then show "upload_to_dropbox w token local_path dest_path st
            = (Inr PNone, st\<lparr>sent := sent st @ [upload_request token d dest_path],
                              stdout := stdout st @ [upload_failed_line r]\<rparr>)"
    using assms by (simp add: upload_refused)
next
  assume ok: "status_code r \<in> {200, 201}"
  show "new_requests st (snd (upload_to_dropbox w token local_path dest_path st))
            = [upload_request token d dest_path, share_request token dest_path]"
    using assms ok
    by (auto simp: upload_to_dropbox_def send_def print_def Let_def new_requests_def
             split: sum.splits)
qed

theorem upload_status_decides_witness:
  "upload_to_dropbox (demo_world None (Inr []) (\<lambda>_. Inr denied_response)) (lit ''sl.A1'')
      OUT_FILE DEST_PATH saved
   = (Inr PNone,
      saved\<lparr>sent := sent saved @ [upload_request (lit ''sl.A1'') (Pptx []) DEST_PATH],
            stdout := stdout saved @ [lit ''[!] Dropbox upload failed: 401 invalid_access_token'']\<rparr>)
   \<and> new_requests saved (snd (upload_to_dropbox
          (demo_world None (Inr []) (\<lambda>_. Inr (ok_response PNone))) (lit ''sl.A1'')
          OUT_FILE DEST_PATH saved))
     = [upload_request (lit ''sl.A1'') (Pptx []) DEST_PATH, share_request (lit ''sl.A1'') DEST_PATH]"
  using upload_status_decides [OF read_saved_deck, of None "Inr []" "\<lambda>_. Inr denied_response"
          "lit ''sl.A1''" DEST_PATH denied_response]
        upload_status_decides [OF read_saved_deck, of None "Inr []" "\<lambda>_. Inr (ok_response PNone)"
          "lit ''sl.A1''" DEST_PATH "ok_response PNone"]
  by (simp add: demo_world_def denied_response_def ok_response_def upload_failed_line_def
        str_nat_401 lit_def)

subsection \<open>The share link\<close>

lemma share_link_ok_response: "share_link (ok_response link) = convert_link link"
  by (simp add: share_link_def ok_response_def)

text \<open>
  A link that ends in \<^verbatim>\<open>?dl=0\<close> is rewritten; one in which \<^verbatim>\<open>dl=0\<close> follows another parameter is
  not; a \<^verbatim>\<open>url\<close> member that is a number or a list holding \<^verbatim>\<open>dl=0\<close> makes the rewriting raise.
\<close>

lemma classic_link_converted:
  "convert_link (PStr (lit ''https://www.dropbox.com/s/k3/deck.pptx?dl=0''))
   = Inr (PStr (lit ''https://www.dropbox.com/s/k3/deck.pptx?dl=1''))"
  by (simp add: convert_link_def lit_def)

lemma convert_modern_link: "convert_link (PStr modern_link) = Inr (PStr modern_link)"
  by (simp add: convert_link_def modern_link_def lit_def)

lemma number_link_raises:
  "convert_link (PInt 7)
   = Inl (Exn (lit ''TypeError'') (lit ''argument of type '' @ [39] @ lit ''int'' @ [39]
                                    @ lit '' is not iterable''))"
  by (simp add: convert_link_def)

lemma list_link_raises:
  "convert_link (PList [PStr (lit ''dl=0'')]) = Inl (no_attribute (PList [PStr (lit ''dl=0'')]) (lit ''replace''))"
  by (simp add: convert_link_def)

text \<open>
  Claim C3, at a link of the form the service returns today, where \<^verbatim>\<open>dl=0\<close> follows another
  query parameter: upload and share-link request both succeed, and the link comes back
  unchanged, still ending in \<^verbatim>\<open>dl=0\<close>.
\<close>

theorem modern_link_not_converted:
  "fst (upload_to_dropbox (demo_world None (Inr []) (\<lambda>_. Inr (ok_response (PStr modern_link))))
          (lit ''sl.A1'') OUT_FILE DEST_PATH saved)
   = Inr (PStr (lit ''https://www.dropbox.com/scl/fi/k3/deck.pptx?rlkey=r7&dl=0''))"
proof -
  have "fst (upload_to_dropbox (demo_world None (Inr []) (\<lambda>_. Inr (ok_response (PStr modern_link))))
          (lit ''sl.A1'') OUT_FILE DEST_PATH saved) = Inr (PStr modern_link)"
    by (subst share_granted [OF read_saved_deck, where r = "ok_response (PStr modern_link)"
          and ?r2.0 = "ok_response (PStr modern_link)" and link = "PStr modern_link"])
       (simp_all add: demo_world_def share_link_ok_response convert_modern_link,
        simp_all add: ok_response_def)
  then show ?thesis by (simp add: modern_link_def)
qed

subsection \<open>What the builder leaves untouched\<close>

lemma insert_image_files:
  "insert_image w ip shp st = (shp', st') \<Longrightarrow> files st' = files st"
  by (auto simp: insert_image_def split: option.splits if_splits)

lemma build_slide_files: "build_slide w ips i s st = (sl, st') \<Longrightarrow> files st' = files st"
  by (auto simp: build_slide_def Let_def split: prod.splits dest: insert_image_files)

lemma build_slides_files:
  "build_slides w ips i ss deck st = (deck', st') \<Longrightarrow> files st' = files st"
proof (induction ss arbitrary: i deck st)
  case Nil
  then show ?case by simp
next
  case (Cons s ss)
  obtain sl st1 where b: "build_slide w ips i s st = (sl, st1)"
    by (cases "build_slide w ips i s st")
  from Cons.prems b have rest: "build_slides w ips (Suc i) ss (deck @ [sl]) st1 = (deck', st')"
    by simp
  have "files st' = files st1" using rest by (rule Cons.IH)
  then show ?case using build_slide_files [OF b] by simp
qed

lemma build_presentation_saved:
  assumes "save_error w = None"
  shows "\<exists>st'. build_presentation w ips st = (Inr (), st')
           \<and> files st' = (files st)(OUT_FILE \<mapsto> Pptx (fst (build_slides w ips 0 slides [] st)))
           \<and> sent st' = sent st"
proof -
  obtain deck st1 where b: "build_slides w ips 0 slides [] st = (deck, st1)"
    by (cases "build_slides w ips 0 slides [] st")
  show ?thesis
    using assms b build_slides_files [OF b] build_slides_sent [OF b]
    by (simp add: build_presentation_def)
qed

lemma build_presentation_save_fails:
  "save_error w = Some e \<Longrightarrow> fst (build_presentation w ips st) = Inl e"
  by (simp add: build_presentation_def split: prod.splits)

subsection \<open>The steps of the top-level flow\<close>

lemma main_steps:
  assumes "get_token w = Inr tok"
      and "download_all w IMAGE_QUERIES Map.empty (print (lit ''Downloading images...'') st) = (ips, st2)"
      and "build_presentation w ips (print (lit ''Building presentation...'') st2) = (Inr (), st4)"
      and "upload_to_dropbox w tok OUT_FILE DEST_PATH (print (lit ''Uploading to Dropbox...'') st4)
           = (res, st6)"
  shows "main w st = (case res of Inl e \<Rightarrow> (Inl e, st6)
                      | Inr link \<Rightarrow> (Inr (), print (final_message link) st6))"
  using assms by (simp add: main_def final_message_def split: sum.splits)

text \<open>
  The state in which \<^verbatim>\<open>main\<close> calls the uploader, when the token is there and the deck is
  saved: the saved deck is on disk, and the image requests are all that has been sent.
\<close>

lemma main_reaches_upload:
  assumes tok: "get_token w = Inr tok" and save: "save_error w = None"
  shows "\<exists>st5 d. files st5 OUT_FILE = Some (Pptx d)
           \<and> sent st5 = sent st @ image_requests
           \<and> main w st = (case upload_to_dropbox w tok OUT_FILE DEST_PATH st5 of
                            (Inl e, st6) \<Rightarrow> (Inl e, st6)
                          | (Inr link, st6) \<Rightarrow> (Inr (), print (final_message link) st6))
           \<and> (\<exists>out. stdout st5 = out @ [lit ''Uploading to Dropbox...''])"
proof -
  obtain ips st2 where dl: "download_all w IMAGE_QUERIES Map.empty (print (lit ''Downloading images...'') st) = (ips, st2)"
    by (cases "download_all w IMAGE_QUERIES Map.empty (print (lit ''Downloading images...'') st)")
  have s2: "sent st2 = sent st @ image_requests"
    using download_all_sent [OF dl] by (simp add: image_requests_def)
  from build_presentation_saved [OF save, of ips "print (lit ''Building presentation...'') st2"]
  obtain st4 where bp: "build_presentation w ips (print (lit ''Building presentation...'') st2) = (Inr (), st4)"
    and f4: "files st4 OUT_FILE
             = Some (Pptx (fst (build_slides w ips 0 slides [] (print (lit ''Building presentation...'') st2))))"
    and s4: "sent st4 = sent st2"
    by auto
  let ?st5 = "print (lit ''Uploading to Dropbox...'') st4"
  obtain res st6 where up: "upload_to_dropbox w tok OUT_FILE DEST_PATH ?st5 = (res, st6)"
    by (cases "upload_to_dropbox w tok OUT_FILE DEST_PATH ?st5")
  have "main w st = (case res of Inl e \<Rightarrow> (Inl e, st6)
                      | Inr link \<Rightarrow> (Inr (), print (final_message link) st6))"
    using tok dl bp up by (rule main_steps)
  then have "main w st = (case upload_to_dropbox w tok OUT_FILE DEST_PATH ?st5 of
                            (Inl e, st6) \<Rightarrow> (Inl e, st6)
                          | (Inr link, st6) \<Rightarrow> (Inr (), print (final_message link) st6))"
    using up by (simp split: sum.splits)
  moreover have "files ?st5 OUT_FILE
      = Some (Pptx (fst (build_slides w ips 0 slides [] (print (lit ''Building presentation...'') st2))))"
    using f4 by simp
  moreover have "sent ?st5 = sent st @ image_requests" using s4 s2 by simp
  moreover have "\<exists>out. stdout ?st5 = out @ [lit ''Uploading to Dropbox...'']" by simp
  ultimately show ?thesis by blast
qed

subsection \<open>The credential\<close>

lemma read_saved:
  "files st OUT_FILE = Some d \<Longrightarrow> read_error w OUT_FILE = None \<Longrightarrow> read_file w OUT_FILE st = Inr d"
  by (simp add: read_file_def)

text \<open>
  The POST requests of a run in which the token is there and the deck is saved and read
  back: the upload request, built from the token, follows the image requests, and only the
  share-link request, built from the same token, can follow it.
\<close>

lemma main_posts:
  assumes tok: "get_token w = Inr tok" and save: "save_error w = None"
      and read: "read_error w OUT_FILE = None"
  shows "\<exists>d rest. new_requests st (snd (main w st))
                  = image_requests @ upload_request tok d DEST_PATH # rest
                \<and> (rest = [] \<or> rest = [share_request tok DEST_PATH])"
proof -
  from main_reaches_upload [OF tok save, of st] obtain st5 d where
    f: "files st5 OUT_FILE = Some (Pptx d)" and
    s: "sent st5 = sent st @ image_requests" and
    m: "main w st = (case upload_to_dropbox w tok OUT_FILE DEST_PATH st5 of
                       (Inl e, st6) \<Rightarrow> (Inl e, st6)
                     | (Inr link, st6) \<Rightarrow> (Inr (), print (final_message link) st6))"
    by blast
  have rd: "read_file w OUT_FILE st5 = Inr (Pptx d)"
    using f read by (rule read_saved)
  from upload_sends [OF rd, of tok DEST_PATH] obtain rest where
    u: "sent (snd (upload_to_dropbox w tok OUT_FILE DEST_PATH st5))
        = sent st5 @ upload_request tok (Pptx d) DEST_PATH # rest" and
    r: "rest = [] \<or> rest = [share_request tok DEST_PATH]"
    by blast
  have "sent (snd (main w st)) = sent (snd (upload_to_dropbox w tok OUT_FILE DEST_PATH st5))"
    unfolding m by (simp split: prod.splits sum.splits)
  then have "new_requests st (snd (main w st))
             = image_requests @ upload_request tok (Pptx d) DEST_PATH # rest"
    using u s by (simp add: new_requests_def)
  with r show ?thesis by blast
qed

lemma main_bearer:
  assumes tok: "get_token w = Inr tok" and save: "save_error w = None"
      and read: "read_error w OUT_FILE = None"
  shows "\<exists>d rest. new_requests st (snd (main w st))
                  = image_requests @ upload_request tok d DEST_PATH # rest
                \<and> set (map authorization (upload_request tok d DEST_PATH # rest))
                  = {Some (lit ''Bearer '' @ tok)}"
proof -
  from main_posts [OF tok save read, of st] obtain d rest where
    n: "new_requests st (snd (main w st)) = image_requests @ upload_request tok d DEST_PATH # rest"
    and r: "rest = [] \<or> rest = [share_request tok DEST_PATH]"
    by blast
  from r have "set (map authorization (upload_request tok d DEST_PATH # rest))
               = {Some (lit ''Bearer '' @ tok)}"
    by auto
  with n show ?thesis by blast
qed

text \<open>
  Claim C10. When \<^verbatim>\<open>DROPBOX_TOKEN\<close> is unset or empty, \<^verbatim>\<open>main\<close> asks the hidden prompt and uses
  its input stripped of surrounding whitespace; a non-empty value of the variable is used
  as it is. Once the deck is saved and read back, the upload request is sent, built from
  that token, and it and the share-link request carry the token after \<^verbatim>\<open>Bearer\<close>. When the
  prompt is consulted and raises, \<^verbatim>\<open>main\<close> ends with that exception.
\<close>

theorem main_token:
  assumes "save_error w = None" and "read_error w OUT_FILE = None"
  shows "(env_token w = Some t \<and> t \<noteq> [] \<longrightarrow>
            get_token w = Inr t
            \<and> (\<exists>d rest. new_requests st (snd (main w st))
                          = image_requests @ upload_request t d DEST_PATH # rest
                        \<and> set (map authorization (upload_request t d DEST_PATH # rest))
                          = {Some (lit ''Bearer '' @ t)}))
       \<and> ((env_token w = None \<or> env_token w = Some []) \<and> getpass w = Inr x \<longrightarrow>
            get_token w = Inr (strip x)
            \<and> (\<exists>d rest. new_requests st (snd (main w st))
                          = image_requests @ upload_request (strip x) d DEST_PATH # rest
                        \<and> set (map authorization (upload_request (strip x) d DEST_PATH # rest))
                          = {Some (lit ''Bearer '' @ strip x)}))
       \<and> ((env_token w = None \<or> env_token w = Some []) \<and> getpass w = Inl e \<longrightarrow>
            main w st = (Inl e, st))"
proof (intro conjI impI)
  assume a: "env_token w = Some t \<and> t \<noteq> []"
  then show g: "get_token w = Inr t" by (simp add: get_token_def)
  show "\<exists>d rest. new_requests st (snd (main w st))
                  = image_requests @ upload_request t d DEST_PATH # rest
                \<and> set (map authorization (upload_request t d DEST_PATH # rest))
                  = {Some (lit ''Bearer '' @ t)}"
    using g assms by (rule main_bearer)
next
  assume a: "(env_token w = None \<or> env_token w = Some []) \<and> getpass w = Inr x"
  then show g: "get_token w = Inr (strip x)" by (auto simp: get_token_def)
  show "\<exists>d rest. new_requests st (snd (main w st))
                  = image_requests @ upload_request (strip x) d DEST_PATH # rest
                \<and> set (map authorization (upload_request (strip x) d DEST_PATH # rest))
                  = {Some (lit ''Bearer '' @ strip x)}"
    using g assms by (rule main_bearer)
next
  assume a: "(env_token w = None \<or> env_token w = Some []) \<and> getpass w = Inl e"
  then have "get_token w = Inl e" by (auto simp: get_token_def)
  then show "main w st = (Inl e, st)" by (simp add: main_def)
qed

theorem main_token_witness:
  "get_token (demo_world (Some (lit '' sl.A1 '')) (Inr []) (\<lambda>_. Inl refused)) = Inr (lit '' sl.A1 '')
   \<and> (\<exists>d rest. new_requests fresh
                   (snd (main (demo_world (Some (lit '' sl.A1 '')) (Inr []) (\<lambda>_. Inl refused)) fresh))
                 = image_requests @ upload_request (lit '' sl.A1 '') d DEST_PATH # rest
               \<and> set (map authorization (upload_request (lit '' sl.A1 '') d DEST_PATH # rest))
                 = {Some (lit ''Bearer  sl.A1 '')})
   \<and> get_token (demo_world None (Inr (lit '' sl.A1 '')) (\<lambda>_. Inl refused)) = Inr (lit ''sl.A1'')
   \<and> (\<exists>d rest. new_requests fresh
                   (snd (main (demo_world None (Inr (lit '' sl.A1 '')) (\<lambda>_. Inl refused)) fresh))
                 = image_requests @ upload_request (lit ''sl.A1'') d DEST_PATH # rest
               \<and> set (map authorization (upload_request (lit ''sl.A1'') d DEST_PATH # rest))
                 = {Some (lit ''Bearer sl.A1'')})
   \<and> main (demo_world (Some []) (Inl refused) (\<lambda>_. Inl refused)) fresh = (Inl refused, fresh)"
proof -
  have s: "strip (lit '' sl.A1 '') = lit ''sl.A1''"
    by (simp add: strip_def lit_def isspace_def)
  have o: "\<And>tok pw h. save_error (demo_world tok pw h) = None"
          "\<And>tok pw h. read_error (demo_world tok pw h) OUT_FILE = None"
    by (simp_all add: demo_world_def)
  have b: "lit ''Bearer '' @ lit '' sl.A1 '' = lit ''Bearer  sl.A1 ''"
          "lit ''Bearer '' @ lit ''sl.A1'' = lit ''Bearer sl.A1''"
    by (simp_all add: lit_def)
  note th = main_token [OF o]
  have e1: "env_token (demo_world (Some (lit '' sl.A1 '')) (Inr []) (\<lambda>_. Inl refused))
              = Some (lit '' sl.A1 '') \<and> lit '' sl.A1 '' \<noteq> []"
    by (simp add: demo_world_def lit_def)
  have e2: "(env_token (demo_world None (Inr (lit '' sl.A1 '')) (\<lambda>_. Inl refused)) = None
             \<or> env_token (demo_world None (Inr (lit '' sl.A1 '')) (\<lambda>_. Inl refused)) = Some [])
            \<and> getpass (demo_world None (Inr (lit '' sl.A1 '')) (\<lambda>_. Inl refused))
              = Inr (lit '' sl.A1 '')"
    by (simp add: demo_world_def)
  have e3: "(env_token (demo_world (Some []) (Inl refused) (\<lambda>_. Inl refused)) = None
             \<or> env_token (demo_world (Some []) (Inl refused) (\<lambda>_. Inl refused)) = Some [])
            \<and> getpass (demo_world (Some []) (Inl refused) (\<lambda>_. Inl refused)) = Inl refused"
    by (simp add: demo_world_def)
  from th [of "Some (lit '' sl.A1 '')" "Inr []" "\<lambda>_. Inl refused" "lit '' sl.A1 ''" fresh] e1
  have 1: "get_token (demo_world (Some (lit '' sl.A1 '')) (Inr []) (\<lambda>_. Inl refused))
           = Inr (lit '' sl.A1 '')"
    and 2: "\<exists>d rest. new_requests fresh
                   (snd (main (demo_world (Some (lit '' sl.A1 '')) (Inr []) (\<lambda>_. Inl refused)) fresh))
                 = image_requests @ upload_request (lit '' sl.A1 '') d DEST_PATH # rest
               \<and> set (map authorization (upload_request (lit '' sl.A1 '') d DEST_PATH # rest))
                 = {Some (lit ''Bearer '' @ lit '' sl.A1 '')}"
    by blast+
  from th [of None "Inr (lit '' sl.A1 '')" "\<lambda>_. Inl refused" _ fresh "lit '' sl.A1 ''"] e2
  have 3: "get_token (demo_world None (Inr (lit '' sl.A1 '')) (\<lambda>_. Inl refused))
           = Inr (strip (lit '' sl.A1 ''))"
    and 4: "\<exists>d rest. new_requests fresh
                   (snd (main (demo_world None (Inr (lit '' sl.A1 '')) (\<lambda>_. Inl refused)) fresh))
                 = image_requests @ upload_request (strip (lit '' sl.A1 '')) d DEST_PATH # rest
               \<and> set (map authorization (upload_request (strip (lit '' sl.A1 '')) d DEST_PATH # rest))
                 = {Some (lit ''Bearer '' @ strip (lit '' sl.A1 ''))}"
    by blast+
  from th [of "Some []" "Inl refused" "\<lambda>_. Inl refused" _ fresh _ refused] e3
  have 5: "main (demo_world (Some []) (Inl refused) (\<lambda>_. Inl refused)) fresh = (Inl refused, fresh)"
    by blast
  from 1 2 3 4 5 show ?thesis unfolding s b by blast
qed

subsection \<open>The upload request and the storage service\<close>

lemma strip_prefix_append: "strip_prefix xs (xs @ ys) = Some ys"
  by (induction xs) auto

lemma overwrite_path_of_arg:
  assumes "34 \<notin> set p" and "92 \<notin> set p"
  shows "overwrite_path (lit ''{\"path\": \"'' @ p
           @ lit ''\", \"mode\": \"overwrite\", \"autorename\": false, \"mute\": false}'') = Some p"
proof -
  obtain tl where suf: "lit ''\", \"mode\": \"overwrite\", \"autorename\": false, \"mute\": false}'' = 34 # tl"
    by (simp add: lit_def)
  have ne: "\<And>c. c \<in> set p \<Longrightarrow> c \<noteq> 34"
    using assms(1) by auto
  have tw: "takeWhile (\<lambda>c. c \<noteq> 34) (p @ 34 # tl) = p"
    using ne by (simp add: takeWhile_append2)
  have dw: "dropWhile (\<lambda>c. c \<noteq> 34) (p @ 34 # tl) = 34 # tl"
    using ne by (simp add: dropWhile_append2)
  show ?thesis
    unfolding overwrite_path_def strip_prefix_append suf
    using assms(2) by (simp add: tw dw Let_def)
qed

lemma api_arg_upload:
  "api_arg (upload_request tok d dest)
   = Some (lit ''{\"path\": \"'' @ dest
           @ lit ''\", \"mode\": \"overwrite\", \"autorename\": false, \"mute\": false}'')"
  by (simp add: api_arg_def upload_request_def lit_def)

lemma dest_path_plain: "34 \<notin> set DEST_PATH \<and> 92 \<notin> set DEST_PATH"
  by (simp add: DEST_PATH_def lit_def)

lemma dropbox_upload_dest:
  "dropbox_upload (upload_request tok d DEST_PATH) remote = Some (remote(DEST_PATH \<mapsto> d))"
proof -
  have "overwrite_path (lit ''{\"path\": \"'' @ DEST_PATH
           @ lit ''\", \"mode\": \"overwrite\", \"autorename\": false, \"mute\": false}'')
        = Some DEST_PATH"
    using dest_path_plain by (intro overwrite_path_of_arg) simp_all
  moreover have "body (upload_request tok d DEST_PATH) = Data d"
    by (simp add: upload_request_def)
  ultimately show ?thesis
    by (simp add: dropbox_upload_def api_arg_upload)
qed

lemma api_arg_dest:
  "api_arg (upload_request tok d DEST_PATH)
   = Some (lit ''{\"path\": \"/AI_in_Mobile_Phones_Droplet.pptx\", \"mode\": \"overwrite\", \"autorename\": false, \"mute\": false}'')"
  by (simp add: api_arg_upload DEST_PATH_def lit_def)

lemma uploads_image_requests: "uploads image_requests = []"
  by (simp add: uploads_def image_requests_def get_request_def image_url_def lit_def
        filter_empty_conv split: prod.splits)

lemma uploads_Nil [simp]: "uploads [] = []"
  by (simp add: uploads_def)

lemma uploads_upload [simp]:
  "uploads (upload_request tok d dest # rqs) = upload_request tok d dest # uploads rqs"
  by (simp add: uploads_def upload_request_def)

lemma uploads_share [simp]: "uploads (share_request tok dest # rqs) = uploads rqs"
  by (simp add: uploads_def share_request_def lit_def)

lemma main_uploads:
  assumes "rq \<in> set (uploads (new_requests st (snd (main w st))))"
  shows "\<exists>tok d. rq = upload_request tok d DEST_PATH"
proof (cases "get_token w")
  case (Inl e)
  then have "main w st = (Inl e, st)" by (simp add: main_def)
  with assms show ?thesis by (simp add: new_requests_def uploads_def)
next
  case (Inr tok)
  obtain res st' where run: "main w st = (res, st')" by (cases "main w st")
  from main_sent [OF Inr run] obtain d posts where
    s: "sent st' = sent st @ image_requests @ posts" and
    p: "posts \<in> {[], [upload_request tok d DEST_PATH],
                  [upload_request tok d DEST_PATH, share_request tok DEST_PATH]}"
    by blast
  have "uploads (new_requests st st') = uploads posts"
    using s uploads_image_requests by (simp add: new_requests_def uploads_def)
  then have "rq \<in> set (uploads posts)" using assms run by simp
  moreover have "uploads posts = [] \<or> uploads posts = [upload_request tok d DEST_PATH]"
    using p by auto
  ultimately have "rq = upload_request tok d DEST_PATH" by auto
  then show ?thesis by (intro exI)
qed

subsection \<open>Runs in which every call returns\<close>

lemma final_message_cases: "final_message link \<in> {done_message, issues_message}"
  by (simp add: final_message_def)

lemma granted_run:
  "\<exists>d st5. main granted_world fresh
     = (Inr (),
        st5\<lparr>sent := image_requests
                 @ [upload_request (lit ''sl.A1'') d DEST_PATH, share_request (lit ''sl.A1'') DEST_PATH],
            stdout := stdout st5 @ [uploaded_line DEST_PATH, shareable_line granted_world (PStr modern_link),
                                     done_message]\<rparr>)"
proof -
  have tok: "get_token granted_world = Inr (lit ''sl.A1'')"
    by (simp add: granted_world_def demo_world_def get_token_def lit_def)
  have save: "save_error granted_world = None"
    by (simp add: granted_world_def demo_world_def)
  from main_reaches_upload [OF tok save, of fresh] obtain st5 d where
    f: "files st5 OUT_FILE = Some (Pptx d)" and
    s: "sent st5 = sent fresh @ image_requests" and
    m: "main granted_world fresh
        = (case upload_to_dropbox granted_world (lit ''sl.A1'') OUT_FILE DEST_PATH st5 of
             (Inl e, st6) \<Rightarrow> (Inl e, st6)
           | (Inr link, st6) \<Rightarrow> (Inr (), print (final_message link) st6))"
    by blast
  have r: "read_file granted_world OUT_FILE st5 = Inr (Pptx d)"
    using f by (rule read_saved) (simp add: granted_world_def demo_world_def)
  have h: "\<And>rq. http granted_world rq = Inr (ok_response (PStr modern_link))"
    by (simp add: granted_world_def demo_world_def)
  have u: "upload_to_dropbox granted_world (lit ''sl.A1'') OUT_FILE DEST_PATH st5
        = (Inr (PStr modern_link),
           st5\<lparr>sent := sent st5 @ [upload_request (lit ''sl.A1'') (Pptx d) DEST_PATH,
                                    share_request (lit ''sl.A1'') DEST_PATH],
               stdout := stdout st5 @ [uploaded_line DEST_PATH,
                                        shareable_line granted_world (PStr modern_link)]\<rparr>)"
    by (rule share_granted [OF r h _ h])
       (simp_all add: share_link_ok_response convert_modern_link, simp_all add: ok_response_def)
  have fm: "final_message (PStr modern_link) = done_message"
    by (simp add: final_message_def modern_link_def lit_def)
  show ?thesis
    using m s by (simp add: u fm print_def fresh_def) blast
qed

text \<open>In every run, each GET carries the timeout of 15 seconds and no POST carries one.\<close>

lemma run_timeouts:
  "list_all (\<lambda>rq. timeout rq = (if is_post rq then None else Some 15))
     (new_requests st (snd (main w st)))"
proof (cases "get_token w")
  case (Inl e)
  then have "main w st = (Inl e, st)" by (simp add: main_def)
  then show ?thesis by (simp add: new_requests_def)
next
  case (Inr tok)
  obtain res st' where run: "main w st = (res, st')" by (cases "main w st")
  from main_sent [OF Inr run] obtain d posts where
    s: "sent st' = sent st @ image_requests @ posts" and
    p: "posts \<in> {[], [upload_request tok d DEST_PATH],
                  [upload_request tok d DEST_PATH, share_request tok DEST_PATH]}"
    by blast
  have g: "list_all (\<lambda>rq. timeout rq = (if is_post rq then None else Some 15)) image_requests"
    by (simp add: image_requests_def list_all_iff is_post_def get_request_def split: prod.splits)
  have u: "timeout (upload_request tok d DEST_PATH) = None"
          "timeout (share_request tok DEST_PATH) = None"
    by (simp_all add: upload_request_def share_request_def)
  have "list_all (\<lambda>rq. timeout rq = (if is_post rq then None else Some 15)) posts"
    using p u by auto
  with g s run show ?thesis by (simp add: new_requests_def)
qed

text \<open>
  Claim C8, on a run in which every request is answered with status 200: the twelve image
  requests carry a timeout of 15 seconds, the upload and the share-link request carry
  none.
\<close>

theorem posts_have_no_timeout:
  "map timeout (new_requests fresh (snd (main granted_world fresh)))
   = replicate 12 (Some 15) @ [None, None]"
proof -
  have "\<And>x :: nat option. replicate 12 x = [x, x, x, x, x, x, x, x, x, x, x, x]"
    by (simp add: numeral_eq_Suc)
  then have "map timeout image_requests = replicate 12 (Some 15)"
    by (simp add: image_requests_def IMAGE_QUERIES_def get_request_def)
  moreover have "\<And>d. map timeout [upload_request (lit ''sl.A1'') d DEST_PATH,
                                   share_request (lit ''sl.A1'') DEST_PATH] = [None, None]"
    by (simp add: upload_request_def share_request_def)
  ultimately show ?thesis
    using granted_run by (auto simp: new_requests_def fresh_def)
qed

lemma uploads_append: "uploads (xs @ ys) = uploads xs @ uploads ys"
  by (simp add: uploads_def)

text \<open>
  Claim C9. Every upload request of every run of \<^verbatim>\<open>main\<close> carries the same argument: the path
  \<^verbatim>\<open>/AI_in_Mobile_Phones_Droplet.pptx\<close>, mode \<^verbatim>\<open>overwrite\<close>, \<^verbatim>\<open>autorename\<close> false. On the storage
  service the upload of a second run therefore replaces the file the first run left at
  that path: the set of stored paths is the same after the second upload as after the
  first, the path holds the second body, and no other path changes.
\<close>

theorem upload_destination_idempotent:
  assumes "rq1 \<in> set (uploads (new_requests st1 (snd (main w1 st1))))"
      and "rq2 \<in> set (uploads (new_requests st2 (snd (main w2 st2))))"
  shows "api_arg rq1 = Some (lit ''{\"path\": \"/AI_in_Mobile_Phones_Droplet.pptx\", \"mode\": \"overwrite\", \"autorename\": false, \"mute\": false}'')
       \<and> api_arg rq2 = api_arg rq1
       \<and> (\<exists>d1 d2 remote1 remote2.
             body rq1 = Data d1 \<and> body rq2 = Data d2
           \<and> dropbox_upload rq1 remote = Some remote1
           \<and> dropbox_upload rq2 remote1 = Some remote2
           \<and> remote1 = remote(DEST_PATH \<mapsto> d1)
           \<and> remote2 = remote(DEST_PATH \<mapsto> d2)
           \<and> dom remote2 = dom remote1)"
proof -
  from main_uploads [OF assms(1)] obtain t1 d1 where r1: "rq1 = upload_request t1 d1 DEST_PATH"
    by blast
  from main_uploads [OF assms(2)] obtain t2 d2 where r2: "rq2 = upload_request t2 d2 DEST_PATH"
    by blast
  have b1: "body rq1 = Data d1" and b2: "body rq2 = Data d2"
    using r1 r2 by (simp_all add: upload_request_def)
  have u1: "dropbox_upload rq1 remote = Some (remote(DEST_PATH \<mapsto> d1))"
    unfolding r1 by (rule dropbox_upload_dest)
  have u2: "dropbox_upload rq2 (remote(DEST_PATH \<mapsto> d1)) = Some (remote(DEST_PATH \<mapsto> d2))"
    unfolding r2 by (simp add: dropbox_upload_dest)
  have "dom (remote(DEST_PATH \<mapsto> d2)) = dom (remote(DEST_PATH \<mapsto> d1))"
    by simp
  with b1 b2 u1 u2 have "\<exists>d1 d2 remote1 remote2.
             body rq1 = Data d1 \<and> body rq2 = Data d2
           \<and> dropbox_upload rq1 remote = Some remote1
           \<and> dropbox_upload rq2 remote1 = Some remote2
           \<and> remote1 = remote(DEST_PATH \<mapsto> d1)
           \<and> remote2 = remote(DEST_PATH \<mapsto> d2)
           \<and> dom remote2 = dom remote1"
    by blast
  then show ?thesis
    using r1 r2 by (simp add: api_arg_dest)
qed

theorem upload_destination_idempotent_witness:
  "\<exists>rq d. rq \<in> set (uploads (new_requests fresh (snd (main granted_world fresh))))
     \<and> api_arg rq = Some (lit ''{\"path\": \"/AI_in_Mobile_Phones_Droplet.pptx\", \"mode\": \"overwrite\", \"autorename\": false, \"mute\": false}'')
     \<and> body rq = Data d
     \<and> dropbox_upload rq Map.empty = Some [DEST_PATH \<mapsto> d]
     \<and> dropbox_upload rq [DEST_PATH \<mapsto> d] = Some [DEST_PATH \<mapsto> d]"
proof -
  from granted_run obtain d st5 where
    "main granted_world fresh
     = (Inr (),
        st5\<lparr>sent := image_requests
                 @ [upload_request (lit ''sl.A1'') d DEST_PATH, share_request (lit ''sl.A1'') DEST_PATH],
            stdout := stdout st5 @ [uploaded_line DEST_PATH, shareable_line granted_world (PStr modern_link),
                                     done_message]\<rparr>)"
    by blast
  then have "new_requests fresh (snd (main granted_world fresh))
             = image_requests @ [upload_request (lit ''sl.A1'') d DEST_PATH,
                                 share_request (lit ''sl.A1'') DEST_PATH]"
    by (simp add: new_requests_def fresh_def)
  then have m: "upload_request (lit ''sl.A1'') d DEST_PATH
                \<in> set (uploads (new_requests fresh (snd (main granted_world fresh))))"
    by (simp add: uploads_append uploads_image_requests)
  from upload_destination_idempotent [OF m m, of Map.empty] show ?thesis
    using m by (intro exI [of _ "upload_request (lit ''sl.A1'') d DEST_PATH"]) auto
qed

subsection \<open>Completion of the top-level flow\<close>

text \<open>
  An invalid credential: both endpoints answer with status 401. The uploader prints the
  failure line with status and body and returns \<open>None\<close>; \<^verbatim>\<open>main\<close> completes and its last line
  is the partial-completion message.
\<close>

lemma denied_run:
  "fst (main denied_world fresh) = Inr ()
   \<and> (\<exists>out. stdout (snd (main denied_world fresh))
             = out @ [lit ''Uploading to Dropbox...'',
                      lit ''[!] Dropbox upload failed: 401 invalid_access_token'',
                      issues_message])
   \<and> (\<exists>d. new_requests fresh (snd (main denied_world fresh))
            = image_requests @ [upload_request (lit ''sl.A1'') d DEST_PATH])"
proof -
  have tok: "get_token denied_world = Inr (lit ''sl.A1'')"
    by (simp add: denied_world_def demo_world_def get_token_def lit_def)
  have save: "save_error denied_world = None"
    by (simp add: denied_world_def demo_world_def)
  from main_reaches_upload [OF tok save, of fresh] obtain st5 d out where
    f: "files st5 OUT_FILE = Some (Pptx d)" and
    s: "sent st5 = sent fresh @ image_requests" and
    m: "main denied_world fresh
        = (case upload_to_dropbox denied_world (lit ''sl.A1'') OUT_FILE DEST_PATH st5 of
             (Inl e, st6) \<Rightarrow> (Inl e, st6)
           | (Inr link, st6) \<Rightarrow> (Inr (), print (final_message link) st6))" and
    o: "stdout st5 = out @ [lit ''Uploading to Dropbox...'']"
    by blast
  have r: "read_file denied_world OUT_FILE st5 = Inr (Pptx d)"
    using f by (rule read_saved) (simp add: denied_world_def demo_world_def)
  have h: "http denied_world (upload_request (lit ''sl.A1'') (Pptx d) DEST_PATH) = Inr denied_response"
    by (simp add: denied_world_def demo_world_def)
  have u: "upload_to_dropbox denied_world (lit ''sl.A1'') OUT_FILE DEST_PATH st5
           = (Inr PNone, st5\<lparr>sent := sent st5 @ [upload_request (lit ''sl.A1'') (Pptx d) DEST_PATH],
                              stdout := stdout st5 @ [upload_failed_line denied_response]\<rparr>)"
    by (rule upload_refused [OF r h]) (simp_all add: denied_response_def)
  have l: "upload_failed_line denied_response
           = lit ''[!] Dropbox upload failed: 401 invalid_access_token''"
    by (simp add: upload_failed_line_def denied_response_def str_nat_401 lit_def)
  have fm: "final_message PNone = issues_message"
    by (simp add: final_message_def)
  have mm: "main denied_world fresh
            = (Inr (), print issues_message
                 (st5\<lparr>sent := sent st5 @ [upload_request (lit ''sl.A1'') (Pptx d) DEST_PATH],
                      stdout := stdout st5 @ [upload_failed_line denied_response]\<rparr>))"
    unfolding m u by (simp add: fm)
  have 1: "fst (main denied_world fresh) = Inr ()"
    unfolding mm by simp
  have 2: "\<exists>out. stdout (snd (main denied_world fresh))
             = out @ [lit ''Uploading to Dropbox...'',
                      lit ''[!] Dropbox upload failed: 401 invalid_access_token'',
                      issues_message]"
  proof (rule exI)
    show "stdout (snd (main denied_world fresh))
          = out @ [lit ''Uploading to Dropbox...'',
                   lit ''[!] Dropbox upload failed: 401 invalid_access_token'',
                   issues_message]"
      unfolding mm using o l by (simp add: print_def)
  qed
  have "new_requests fresh (snd (main denied_world fresh))
        = image_requests @ [upload_request (lit ''sl.A1'') (Pptx d) DEST_PATH]"
    unfolding mm using s by (simp add: new_requests_def print_def)
  then have 3: "\<exists>d. new_requests fresh (snd (main denied_world fresh))
                     = image_requests @ [upload_request (lit ''sl.A1'') d DEST_PATH]"
    by (rule exI)
  from 1 2 3 show ?thesis by (intro conjI)
qed

text \<open>
  Claim C2 fails on the code. When the upload endpoint cannot be reached, \<^verbatim>\<open>requests.post\<close>
  raises; neither \<^verbatim>\<open>upload_to_dropbox\<close> nor \<^verbatim>\<open>main\<close> has a handler, so \<^verbatim>\<open>main\<close> ends with the
  exception after the twelve image requests and the upload request: the last line printed
  is \<^verbatim>\<open>Uploading to Dropbox...\<close>, with no error line, no null link and neither closing
  message. The sibling call \<^verbatim>\<open>requests.get\<close> of \<^verbatim>\<open>download_placeholder\<close> is inside \<^verbatim>\<open>try\<close>: with
  the same failure it prints a warning and returns \<open>None\<close>.
\<close>

theorem main_raises_when_upload_unreachable:
  "fst (main unreachable_world fresh) = Inl refused
   \<and> last (stdout (snd (main unreachable_world fresh))) = lit ''Uploading to Dropbox...''
   \<and> (\<exists>d. new_requests fresh (snd (main unreachable_world fresh))
            = image_requests @ [upload_request (lit ''sl.A1'') d DEST_PATH])
   \<and> download_placeholder (demo_world None (Inr []) (\<lambda>_. Inl refused))
        (lit ''title'') (lit ''smartphone,technology'') 1600 900 fresh
     = (None,
        \<lparr>stdout = [lit ''[!] image download failed for title: connection refused''],
         files = Map.empty,
         sent = [get_request (image_url (lit ''smartphone,technology'') 1600 900)]\<rparr>)"
proof -
  have tok: "get_token unreachable_world = Inr (lit ''sl.A1'')"
    by (simp add: unreachable_world_def demo_world_def get_token_def lit_def)
  have save: "save_error unreachable_world = None"
    by (simp add: unreachable_world_def demo_world_def)
  from main_reaches_upload [OF tok save, of fresh] obtain st5 d out where
    f: "files st5 OUT_FILE = Some (Pptx d)" and
    s: "sent st5 = sent fresh @ image_requests" and
    m: "main unreachable_world fresh
        = (case upload_to_dropbox unreachable_world (lit ''sl.A1'') OUT_FILE DEST_PATH st5 of
             (Inl e, st6) \<Rightarrow> (Inl e, st6)
           | (Inr link, st6) \<Rightarrow> (Inr (), print (final_message link) st6))" and
    o: "stdout st5 = out @ [lit ''Uploading to Dropbox...'']"
    by blast
  have r: "read_file unreachable_world OUT_FILE st5 = Inr (Pptx d)"
    using f by (rule read_saved) (simp add: unreachable_world_def demo_world_def)
  have h: "http unreachable_world (upload_request (lit ''sl.A1'') (Pptx d) DEST_PATH) = Inl refused"
    by (simp add: unreachable_world_def demo_world_def is_post_upload)
  have mm: "main unreachable_world fresh
            = (Inl refused, st5\<lparr>sent := sent st5 @ [upload_request (lit ''sl.A1'') (Pptx d) DEST_PATH]\<rparr>)"
    unfolding m upload_raises [OF r h] by simp
  have 1: "fst (main unreachable_world fresh) = Inl refused"
    unfolding mm by simp
  have 2: "last (stdout (snd (main unreachable_world fresh))) = lit ''Uploading to Dropbox...''"
    unfolding mm using o by simp
  have "new_requests fresh (snd (main unreachable_world fresh))
        = image_requests @ [upload_request (lit ''sl.A1'') (Pptx d) DEST_PATH]"
    unfolding mm using s by (simp add: new_requests_def)
  then have 3: "\<exists>d. new_requests fresh (snd (main unreachable_world fresh))
                     = image_requests @ [upload_request (lit ''sl.A1'') d DEST_PATH]"
    by (rule exI)
  have 4: "download_placeholder (demo_world None (Inr []) (\<lambda>_. Inl refused))
             (lit ''title'') (lit ''smartphone,technology'') 1600 900 fresh
           = (None,
              \<lparr>stdout = [lit ''[!] image download failed for title: connection refused''],
               files = Map.empty,
               sent = [get_request (image_url (lit ''smartphone,technology'') 1600 900)]\<rparr>)"
    by (simp add: download_placeholder_def download_try_def send_def demo_world_def fresh_def
                  print_def download_warning_def refused_def lit_def)
  from 1 2 3 4 show ?thesis by (intro conjI)
qed

subsection \<open>The slides of the deck\<close>

lemma add_bullets_rest:
  "map par_text (add_bullets btf False bs) = map par_text btf @ bs"
  by (induction bs arbitrary: btf) (simp_all add: bullet_font_def)

lemma body_box_texts [simp]: "shape_texts (body_box s) = [body_paragraphs (bullets s)]"
  by (cases "bullets s")
     (auto simp: body_box_def new_text_frame_def empty_par_def body_paragraphs_def
                 add_bullets_rest bullet_font_def)

lemma title_box_texts [simp]: "shape_texts (title_box s) = [[title s]]"
  by (simp add: title_box_def clear_def new_text_frame_def Let_def)

lemma footer_box_texts [simp]: "shape_texts footer_box = [[footer_text]]"
  by (simp add: footer_box_def)

lemma boxes_pictures [simp]:
  "shape_pictures (title_box s) = []" "shape_pictures (body_box s) = []"
  "shape_pictures footer_box = []"
  by (simp_all add: title_box_def body_box_def footer_box_def Let_def)

lemma draw_background_texts [simp]:
  "concat (map shape_texts (draw_background w i [])) = []"
  "concat (map shape_pictures (draw_background w i [])) = []"
  by (simp_all add: draw_background_def Let_def split: option.splits prod.splits bg_step.splits)

lemma insert_image_texts [simp]:
  "concat (map shape_texts (fst (insert_image w ip [] st))) = []"
  by (simp add: insert_image_def split: option.splits)

lemma insert_image_append:
  "insert_image w ip shp st
   = (shp @ fst (insert_image w ip [] st), snd (insert_image w ip [] st))"
  by (simp add: insert_image_def split: option.splits)

lemma build_slide_shapes:
  "shapes (fst (build_slide w ips i s st))
   = draw_background w i [] @ [title_box s, body_box s]
     @ fst (insert_image w (dict_get ips (image_key s)) [] st) @ [footer_box]"
  by (subst build_slide_def, subst insert_image_append) (simp add: Let_def split: prod.splits)

lemma build_slide_state:
  "snd (build_slide w ips i s st) = snd (insert_image w (dict_get ips (image_key s)) [] st)"
  by (subst build_slide_def, subst insert_image_append) (simp add: Let_def split: prod.splits)

lemma build_slide_notes: "notes_text (fst (build_slide w ips i s st)) = notes_str s"
  by (simp add: build_slide_def Let_def split: prod.splits)

lemma build_slide_text_boxes:
  "text_boxes (fst (build_slide w ips i s st))
   = [[title s], body_paragraphs (bullets s), [footer_text]]"
  by (simp add: text_boxes_def build_slide_shapes)

lemma build_slide_pictures:
  "pictures (fst (build_slide w ips i s st))
   = concat (map shape_pictures (fst (insert_image w (dict_get ips (image_key s)) [] st)))"
  by (simp add: pictures_def build_slide_shapes)

lemma insert_image_same_files:
  "files st1 = files st \<Longrightarrow> fst (insert_image w ip shp st1) = fst (insert_image w ip shp st)"
  by (simp add: insert_image_def os_path_exists_def split: option.splits)

lemma build_slide_fst:
  "fst (build_slide w ips i s st)
   = \<lparr>shapes = draw_background w i [] @ [title_box s, body_box s]
                @ fst (insert_image w (dict_get ips (image_key s)) [] st) @ [footer_box],
      notes_text = notes_str s\<rparr>"
  by (subst build_slide_def, subst insert_image_append) (simp add: Let_def split: prod.splits)

lemma build_slide_same_files:
  "files st1 = files st \<Longrightarrow> fst (build_slide w ips i s st1) = fst (build_slide w ips i s st)"
  using insert_image_same_files [of st1 st w "dict_get ips (image_key s)" "[]"]
  by (simp add: build_slide_fst)

lemma build_slides_deck:
  "fst (build_slides w ips i ss deck st)
   = deck @ map (\<lambda>(j, s). fst (build_slide w ips j s st)) (enumerate i ss)"
proof (induction ss arbitrary: i deck st)
  case Nil
  then show ?case by simp
next
  case (Cons s ss)
  obtain sl st1 where b: "build_slide w ips i s st = (sl, st1)"
    by (cases "build_slide w ips i s st")
  have f: "files st1 = files st" using b by (rule build_slide_files)
  have "fst (build_slides w ips (Suc i) ss (deck @ [sl]) st1)
        = (deck @ [sl]) @ map (\<lambda>(j, s). fst (build_slide w ips j s st1)) (enumerate (Suc i) ss)"
    by (rule Cons.IH)
  also have "map (\<lambda>(j, s). fst (build_slide w ips j s st1)) (enumerate (Suc i) ss)
        = map (\<lambda>(j, s). fst (build_slide w ips j s st)) (enumerate (Suc i) ss)"
    by (simp add: build_slide_same_files [OF f])
  finally show ?case using b by simp
qed

lemma map_enumerate_snd: "map (\<lambda>(j, s). f s) (enumerate i ss) = map f ss"
  by (induction ss arbitrary: i) simp_all

lemma deck_length: "length (fst (build_slides w ips 0 ss [] st)) = length ss"
  by (simp add: build_slides_deck)

lemma deck_text_boxes:
  "map text_boxes (fst (build_slides w ips 0 ss [] st))
   = map (\<lambda>s. [[title s], body_paragraphs (bullets s), [footer_text]]) ss"
proof -
  have "map text_boxes (fst (build_slides w ips 0 ss [] st))
        = map (\<lambda>(j, s). [[title s], body_paragraphs (bullets s), [footer_text]]) (enumerate 0 ss)"
    by (simp add: build_slides_deck build_slide_text_boxes split_def comp_def)
  then show ?thesis by (simp only: map_enumerate_snd)
qed

lemma deck_notes:
  "map notes_text (fst (build_slides w ips 0 ss [] st)) = map notes_str ss"
proof -
  have "map notes_text (fst (build_slides w ips 0 ss [] st))
        = map (\<lambda>(j, s). notes_str s) (enumerate 0 ss)"
    by (simp add: build_slides_deck build_slide_notes split_def comp_def)
  then show ?thesis by (simp only: map_enumerate_snd)
qed

lemma slides_have_bullets: "map (\<lambda>s. body_paragraphs (bullets s)) slides = map bullets slides"
  by (simp add: slides_def body_paragraphs_def)

lemma deck_of_nth:
  "i < length slides \<Longrightarrow> deck_of w ips st ! i = fst (build_slide w ips i (slides ! i) st)"
  by (simp add: deck_of_def build_slides_deck nth_enumerate_eq)

text \<open>
  Claim C1. The deck \<^verbatim>\<open>build_presentation\<close> assembles has one slide for each entry of the slide
  table, in the order of the table; on each slide the first text box holds the title, the
  second one paragraph for each bullet with the text of the bullet, and the notes are the
  notes of the entry. The third text box is the footer. When \<^verbatim>\<open>save\<close> succeeds this deck is
  what the output file holds.
\<close>

theorem one_slide_per_descriptor:
  "map text_boxes (deck_of w image_paths st)
     = map (\<lambda>s. [[title s], bullets s, [footer_text]]) slides
   \<and> map notes_text (deck_of w image_paths st) = map notes_str slides
   \<and> length (deck_of w image_paths st) = length slides
   \<and> (save_error w = None \<longrightarrow>
        (\<exists>st'. build_presentation w image_paths st = (Inr (), st')
               \<and> files st' OUT_FILE = Some (Pptx (deck_of w image_paths st))))"
proof (intro conjI impI)
  have "map text_boxes (deck_of w image_paths st)
        = map (\<lambda>s. [[title s], body_paragraphs (bullets s), [footer_text]]) slides"
    unfolding deck_of_def by (rule deck_text_boxes)
  also have "\<dots> = map (\<lambda>s. [[title s], bullets s, [footer_text]]) slides"
    by (simp add: slides_def body_paragraphs_def)
  finally show "map text_boxes (deck_of w image_paths st)
     = map (\<lambda>s. [[title s], bullets s, [footer_text]]) slides" .
  show "map notes_text (deck_of w image_paths st) = map notes_str slides"
    unfolding deck_of_def by (rule deck_notes)
  show "length (deck_of w image_paths st) = length slides"
    unfolding deck_of_def by (rule deck_length)
next
  assume "save_error w = None"
  from build_presentation_saved [OF this, of image_paths st]
  show "\<exists>st'. build_presentation w image_paths st = (Inr (), st')
               \<and> files st' OUT_FILE = Some (Pptx (deck_of w image_paths st))"
    by (auto simp: deck_of_def)
qed

theorem one_slide_per_descriptor_witness:
  "map text_boxes (deck_of granted_world Map.empty fresh)
     = map (\<lambda>s. [[title s], bullets s, [footer_text]]) slides
   \<and> map notes_text (deck_of granted_world Map.empty fresh) = map notes_str slides
   \<and> length (deck_of granted_world Map.empty fresh) = 12
   \<and> (\<exists>st'. build_presentation granted_world Map.empty fresh = (Inr (), st')
             \<and> files st' OUT_FILE = Some (Pptx (deck_of granted_world Map.empty fresh)))"
proof -
  have s: "save_error granted_world = None"
    by (simp add: granted_world_def demo_world_def)
  have l: "length slides = 12" by (simp add: slides_def)
  show ?thesis
    using one_slide_per_descriptor [of granted_world Map.empty fresh] s l by simp
qed

text \<open>
  The example scenario: with the image on disk and \<^verbatim>\<open>add_picture\<close> succeeding, the slide has
  the title, the two bullets, the footer, the picture and the notes.
\<close>

lemma example_scenario:
  "text_boxes (fst (build_slide granted_world [lit ''agenda'' \<mapsto> Some title_image] 0
                      agenda_example with_title_image))
   = [[lit ''Agenda''], [lit ''A'', lit ''B''], [footer_text]]
   \<and> pictures (fst (build_slide granted_world [lit ''agenda'' \<mapsto> Some title_image] 0
                      agenda_example with_title_image)) = [title_image]
   \<and> notes_text (fst (build_slide granted_world [lit ''agenda'' \<mapsto> Some title_image] 0
                        agenda_example with_title_image)) = lit ''x''"
proof -
  have p: "title_image \<noteq> []" by (simp add: title_image_def lit_def)
  have "insert_image granted_world (dict_get [lit ''agenda'' \<mapsto> Some title_image]
            (image_key agenda_example)) [] with_title_image
        = ([Picture title_image 620 160 340], with_title_image)"
    using p
    by (simp add: insert_image_def dict_get_def agenda_example_def os_path_exists_def
          with_title_image_def granted_world_def demo_world_def)
  then show ?thesis
    by (simp add: build_slide_text_boxes build_slide_pictures build_slide_notes)
       (simp add: agenda_example_def body_paragraphs_def)
qed

lemma insert_image_absent:
  assumes "ip = None \<or> (\<exists>p. ip = Some p \<and> \<not> os_path_exists p st)"
  shows "insert_image w ip shp st = (shp, st)"
  using assms by (auto simp: insert_image_def)

lemma add_bullets_False:
  "add_bullets btf False bs = btf @ map (\<lambda>b. bullet_font (empty_par\<lparr>par_text := b\<rparr>)) bs"
  by (induction bs arbitrary: btf) simp_all

lemma body_box_explicit:
  "bullets s \<noteq> [] \<Longrightarrow>
   body_box s
   = Text_box \<lparr>g_left = 50, g_top = 180, g_width = 530, g_height = 460\<rparr>
       (map (\<lambda>b. \<lparr>par_text = b,
                   par_font = \<lparr>font_size = Some 18, font_bold = None,
                               font_color = Some (RGBColor 255 255 255)\<rparr>\<rparr>) (bullets s))"
  by (cases "bullets s")
     (simp_all add: body_box_def new_text_frame_def add_bullets_False bullet_font_def empty_par_def)

lemma title_box_explicit:
  "title_box s
   = Text_box \<lparr>g_left = 50, g_top = 40, g_width = 900, g_height = 120\<rparr>
       [\<lparr>par_text = title s,
         par_font = \<lparr>font_size = Some 34, font_bold = Some True,
                     font_color = Some (RGBColor 0 109 117)\<rparr>\<rparr>]"
  by (simp add: title_box_def clear_def new_text_frame_def empty_par_def TITLE_RGB_def Let_def)

lemma footer_box_explicit:
  "footer_box
   = Text_box \<lparr>g_left = 50, g_top = 655, g_width = 900, g_height = 40\<rparr>
       [\<lparr>par_text = lit ''AI in Mobile Phones '' @ [8212] @ lit '' Droplet theme'',
         par_font = \<lparr>font_size = None, font_bold = None, font_color = None\<rparr>\<rparr>]"
  by (simp add: footer_box_def footer_text_def empty_par_def)

lemma background_explicit:
  "bg_error w i = None \<Longrightarrow>
   draw_background w i []
   = [Auto_shape 1 \<lparr>g_left = 0, g_top = 0, g_width = 1000, g_height = 750\<rparr>
        (Fill_solid (Some (RGBColor 0 138 146))) Fill_background]"
  by (simp add: draw_background_def slide_width_def slide_height_def)

lemma table_bullets: "i < length slides \<Longrightarrow> bullets (slides ! i) \<noteq> []"
proof -
  assume l: "i < length slides"
  have "map (\<lambda>s. body_paragraphs (bullets s)) slides ! i = map bullets slides ! i"
    by (simp only: slides_have_bullets)
  then have "body_paragraphs (bullets (slides ! i)) = bullets (slides ! i)"
    using l by simp
  then show ?thesis by (auto simp: body_paragraphs_def split: if_splits)
qed

lemma draw_background_no_picture:
  "filter (\<lambda>sh. shape_pictures sh = []) (draw_background w i []) = draw_background w i []"
  by (simp add: draw_background_def Let_def split: option.splits prod.splits bg_step.splits)

lemma insert_image_only_pictures:
  "filter (\<lambda>sh. shape_pictures sh = []) (fst (insert_image w ip [] st)) = []"
  by (simp add: insert_image_def split: option.splits)

lemma build_slide_without_pictures:
  "filter (\<lambda>sh. shape_pictures sh = []) (shapes (fst (build_slide w ips i s st)))
   = draw_background w i [] @ [title_box s, body_box s, footer_box]"
  by (simp add: build_slide_fst draw_background_no_picture insert_image_only_pictures)

text \<open>
  Claim C5. For a descriptor of the table whose image path is \<open>None\<close> (a missing key, or a
  key stored with \<open>None\<close>) or names no file on disk, \<^verbatim>\<open>build_presentation\<close> returns, when \<^verbatim>\<open>save\<close>
  succeeds, with the deck written to the output file, and the slide of the descriptor is
  in it: its shapes are the background, the title box, the body box and the footer box,
  its notes are those of the descriptor, and it has no picture. When the background block
  does not raise, the four shapes are the teal rectangle over the whole slide, the title
  in 34 point bold, one paragraph in 18 point white for each bullet, and the caption. The
  shapes are those of the slide as any other build draws it, with the pictures left out.
\<close>

theorem slide_without_image:
  assumes "i < length slides"
      and "save_error w = None"
      and "dict_get image_paths (image_key (slides ! i)) = None
           \<or> (\<exists>p. dict_get image_paths (image_key (slides ! i)) = Some p
                   \<and> \<not> os_path_exists p st)"
  shows "\<exists>st' deck.
           build_presentation w image_paths st = (Inr (), st')
         \<and> files st' OUT_FILE = Some (Pptx deck)
         \<and> length deck = length slides
         \<and> shapes (deck ! i)
           = draw_background w i [] @ [title_box (slides ! i), body_box (slides ! i), footer_box]
         \<and> (bg_error w i = None \<longrightarrow>
              shapes (deck ! i)
              = [Auto_shape 1 \<lparr>g_left = 0, g_top = 0, g_width = 1000, g_height = 750\<rparr>
                   (Fill_solid (Some (RGBColor 0 138 146))) Fill_background,
                 Text_box \<lparr>g_left = 50, g_top = 40, g_width = 900, g_height = 120\<rparr>
                   [\<lparr>par_text = title (slides ! i),
                     par_font = \<lparr>font_size = Some 34, font_bold = Some True,
                                 font_color = Some (RGBColor 0 109 117)\<rparr>\<rparr>],
                 Text_box \<lparr>g_left = 50, g_top = 180, g_width = 530, g_height = 460\<rparr>
                   (map (\<lambda>b. \<lparr>par_text = b,
                               par_font = \<lparr>font_size = Some 18, font_bold = None,
                                           font_color = Some (RGBColor 255 255 255)\<rparr>\<rparr>)
                      (bullets (slides ! i))),
                 Text_box \<lparr>g_left = 50, g_top = 655, g_width = 900, g_height = 40\<rparr>
                   [\<lparr>par_text = lit ''AI in Mobile Phones '' @ [8212] @ lit '' Droplet theme'',
                     par_font = \<lparr>font_size = None, font_bold = None, font_color = None\<rparr>\<rparr>]])
         \<and> notes_text (deck ! i) = notes_str (slides ! i)
         \<and> text_boxes (deck ! i) = [[title (slides ! i)], bullets (slides ! i), [footer_text]]
         \<and> pictures (deck ! i) = []
         \<and> (\<forall>ips st2. filter (\<lambda>sh. shape_pictures sh = [])
                          (shapes (fst (build_slide w ips i (slides ! i) st2)))
                        = shapes (deck ! i))"
proof -
  let ?s = "slides ! i"
  let ?deck = "deck_of w image_paths st"
  from build_presentation_saved [OF assms(2), of image_paths st] obtain st' where
    bp: "build_presentation w image_paths st = (Inr (), st')" and
    fs: "files st' = (files st)(OUT_FILE \<mapsto> Pptx ?deck)"
    unfolding deck_of_def by blast
  have f: "files st' OUT_FILE = Some (Pptx ?deck)"
    using fs by simp
  have len: "length ?deck = length slides"
    unfolding deck_of_def by (rule deck_length)
  have d: "?deck ! i = fst (build_slide w image_paths i ?s st)"
    using assms(1) by (rule deck_of_nth)
  have n: "insert_image w (dict_get image_paths (image_key ?s)) [] st = ([], st)"
    using assms(3) by (rule insert_image_absent)
  have sl: "?deck ! i
            = \<lparr>shapes = draw_background w i [] @ [title_box ?s, body_box ?s, footer_box],
               notes_text = notes_str ?s\<rparr>"
    unfolding d by (simp add: build_slide_fst n)
  have sh: "shapes (?deck ! i) = draw_background w i [] @ [title_box ?s, body_box ?s, footer_box]"
    unfolding sl by simp
  have nt: "notes_text (?deck ! i) = notes_str ?s"
    unfolding sl by simp
  have bne: "bullets ?s \<noteq> []"
    using assms(1) by (rule table_bullets)
  then have b: "body_paragraphs (bullets ?s) = bullets ?s"
    by (simp add: body_paragraphs_def)
  have tb: "text_boxes (?deck ! i) = [[title ?s], bullets ?s, [footer_text]]"
    unfolding d by (simp add: build_slide_text_boxes b)
  have pc: "pictures (?deck ! i) = []"
    unfolding d by (simp add: build_slide_pictures n)
  have ex: "bg_error w i = None \<longrightarrow>
              shapes (?deck ! i)
              = [Auto_shape 1 \<lparr>g_left = 0, g_top = 0, g_width = 1000, g_height = 750\<rparr>
                   (Fill_solid (Some (RGBColor 0 138 146))) Fill_background,
                 Text_box \<lparr>g_left = 50, g_top = 40, g_width = 900, g_height = 120\<rparr>
                   [\<lparr>par_text = title ?s,
                     par_font = \<lparr>font_size = Some 34, font_bold = Some True,
                                 font_color = Some (RGBColor 0 109 117)\<rparr>\<rparr>],
                 Text_box \<lparr>g_left = 50, g_top = 180, g_width = 530, g_height = 460\<rparr>
                   (map (\<lambda>b. \<lparr>par_text = b,
                               par_font = \<lparr>font_size = Some 18, font_bold = None,
                                           font_color = Some (RGBColor 255 255 255)\<rparr>\<rparr>)
                      (bullets ?s)),
                 Text_box \<lparr>g_left = 50, g_top = 655, g_width = 900, g_height = 40\<rparr>
                   [\<lparr>par_text = lit ''AI in Mobile Phones '' @ [8212] @ lit '' Droplet theme'',
                     par_font = \<lparr>font_size = None, font_bold = None, font_color = None\<rparr>\<rparr>]]"
    unfolding sh title_box_explicit body_box_explicit [OF bne] footer_box_explicit
    by (simp add: background_explicit)
  have rel: "\<forall>ips st2. filter (\<lambda>sh. shape_pictures sh = [])
                          (shapes (fst (build_slide w ips i ?s st2)))
                        = shapes (?deck ! i)"
    unfolding sh by (simp only: build_slide_without_pictures simp_thms)
  show ?thesis
  proof (intro exI conjI)
    show "build_presentation w image_paths st = (Inr (), st')" by (rule bp)
    show "files st' OUT_FILE = Some (Pptx ?deck)" by (rule f)
    show "length ?deck = length slides" by (rule len)
    show "shapes (?deck ! i) = draw_background w i [] @ [title_box ?s, body_box ?s, footer_box]"
      by (rule sh)
    show "notes_text (?deck ! i) = notes_str ?s" by (rule nt)
    show "text_boxes (?deck ! i) = [[title ?s], bullets ?s, [footer_text]]" by (rule tb)
    show "pictures (?deck ! i) = []" by (rule pc)
    show "\<forall>ips st2. filter (\<lambda>sh. shape_pictures sh = [])
                          (shapes (fst (build_slide w ips i ?s st2)))
                        = shapes (?deck ! i)" by (rule rel)
  qed (rule ex)
qed

theorem slide_without_image_witness:
  "absent_images (lit ''title'') = Some None
   \<and> absent_images (lit ''agenda'') = Some (Some (lit ''ppt_images/agenda.jpg''))
   \<and> files with_title_image (lit ''ppt_images/agenda.jpg'') = None
   \<and> (\<exists>st' deck.
         build_presentation granted_world absent_images with_title_image = (Inr (), st')
       \<and> files st' OUT_FILE = Some (Pptx deck)
       \<and> length deck = 12
       \<and> shapes (deck ! 0)
         = [Auto_shape 1 \<lparr>g_left = 0, g_top = 0, g_width = 1000, g_height = 750\<rparr>
              (Fill_solid (Some (RGBColor 0 138 146))) Fill_background,
            Text_box \<lparr>g_left = 50, g_top = 40, g_width = 900, g_height = 120\<rparr>
              [\<lparr>par_text = lit ''AI in Mobile Phones'',
                par_font = \<lparr>font_size = Some 34, font_bold = Some True,
                            font_color = Some (RGBColor 0 109 117)\<rparr>\<rparr>],
            Text_box \<lparr>g_left = 50, g_top = 180, g_width = 530, g_height = 460\<rparr>
              [\<lparr>par_text = lit ''How on-device intelligence is changing mobile experiences'',
                par_font = \<lparr>font_size = Some 18, font_bold = None,
                            font_color = Some (RGBColor 255 255 255)\<rparr>\<rparr>],
            Text_box \<lparr>g_left = 50, g_top = 655, g_width = 900, g_height = 40\<rparr>
              [\<lparr>par_text = lit ''AI in Mobile Phones '' @ [8212] @ lit '' Droplet theme'',
                par_font = \<lparr>font_size = None, font_bold = None, font_color = None\<rparr>\<rparr>]]
       \<and> notes_text (deck ! 0) = lit ''Introduce yourself and objectives.''
       \<and> pictures (deck ! 0) = []
       \<and> text_boxes (deck ! 1)
         = [[lit ''Agenda''],
            [lit ''What is mobile AI?'', lit ''On-device vs cloud'', lit ''Hardware & software'',
             lit ''Use cases'', lit ''Developer workflow'', lit ''Challenges & ethics'',
             lit ''Future trends'', lit ''Appendix & references''],
            [lit ''AI in Mobile Phones '' @ [8212] @ lit '' Droplet theme'']]
       \<and> length (shapes (deck ! 1)) = 4
       \<and> notes_text (deck ! 1) = lit ''Walk through the agenda.''
       \<and> pictures (deck ! 1) = [])"
proof -
  have a1: "absent_images (lit ''title'') = Some None"
    and a2: "absent_images (lit ''agenda'') = Some (Some (lit ''ppt_images/agenda.jpg''))"
    by (simp_all add: absent_images_def lit_def)
  have a3: "files with_title_image (lit ''ppt_images/agenda.jpg'') = None"
    by (simp add: with_title_image_def title_image_def lit_def)
  have k0: "image_key (slides ! 0) = lit ''title''"
    and t0: "title (slides ! 0) = lit ''AI in Mobile Phones''"
    and b0: "bullets (slides ! 0)
             = [lit ''How on-device intelligence is changing mobile experiences'']"
    and n0: "notes_str (slides ! 0) = lit ''Introduce yourself and objectives.''"
    by (simp_all add: slides_def)
  have k1: "image_key (slides ! 1) = lit ''agenda''"
    and t1: "title (slides ! 1) = lit ''Agenda''"
    and b1: "bullets (slides ! 1)
             = [lit ''What is mobile AI?'', lit ''On-device vs cloud'', lit ''Hardware & software'',
                lit ''Use cases'', lit ''Developer workflow'', lit ''Challenges & ethics'',
                lit ''Future trends'', lit ''Appendix & references'']"
    and n1: "notes_str (slides ! 1) = lit ''Walk through the agenda.''"
    by (simp_all add: slides_def)
  have l: "length slides = 12" by (simp add: slides_def)
  have i0: "0 < length slides" and i1: "1 < length slides" by (simp_all add: l)
  have sv: "save_error granted_world = None"
    and bg: "bg_error granted_world 0 = None"
    by (simp_all add: granted_world_def demo_world_def)
  have h0: "dict_get absent_images (image_key (slides ! 0)) = None
            \<or> (\<exists>p. dict_get absent_images (image_key (slides ! 0)) = Some p
                    \<and> \<not> os_path_exists p with_title_image)"
    unfolding k0 by (simp add: dict_get_def a1)
  have "dict_get absent_images (image_key (slides ! 1)) = Some (lit ''ppt_images/agenda.jpg'')
        \<and> \<not> os_path_exists (lit ''ppt_images/agenda.jpg'') with_title_image"
    unfolding k1 by (simp add: dict_get_def a2 os_path_exists_def a3)
  then have h1: "dict_get absent_images (image_key (slides ! 1)) = None
            \<or> (\<exists>p. dict_get absent_images (image_key (slides ! 1)) = Some p
                    \<and> \<not> os_path_exists p with_title_image)"
    by blast
  from slide_without_image [OF i0 sv h0] bg obtain st' deck where
    bp: "build_presentation granted_world absent_images with_title_image = (Inr (), st')" and
    f: "files st' OUT_FILE = Some (Pptx deck)" and
    len: "length deck = length slides" and
    s0: "shapes (deck ! 0)
         = [Auto_shape 1 \<lparr>g_left = 0, g_top = 0, g_width = 1000, g_height = 750\<rparr>
              (Fill_solid (Some (RGBColor 0 138 146))) Fill_background,
            Text_box \<lparr>g_left = 50, g_top = 40, g_width = 900, g_height = 120\<rparr>
              [\<lparr>par_text = title (slides ! 0),
                par_font = \<lparr>font_size = Some 34, font_bold = Some True,
                            font_color = Some (RGBColor 0 109 117)\<rparr>\<rparr>],
            Text_box \<lparr>g_left = 50, g_top = 180, g_width = 530, g_height = 460\<rparr>
              (map (\<lambda>b. \<lparr>par_text = b,
                          par_font = \<lparr>font_size = Some 18, font_bold = None,
                                      font_color = Some (RGBColor 255 255 255)\<rparr>\<rparr>)
                 (bullets (slides ! 0))),
            Text_box \<lparr>g_left = 50, g_top = 655, g_width = 900, g_height = 40\<rparr>
              [\<lparr>par_text = lit ''AI in Mobile Phones '' @ [8212] @ lit '' Droplet theme'',
                par_font = \<lparr>font_size = None, font_bold = None, font_color = None\<rparr>\<rparr>]]" and
    nt0: "notes_text (deck ! 0) = notes_str (slides ! 0)" and
    p0: "pictures (deck ! 0) = []"
    by blast
  from slide_without_image [OF i1 sv h1] obtain st2 deck2 where
    bp2: "build_presentation granted_world absent_images with_title_image = (Inr (), st2)" and
    f2: "files st2 OUT_FILE = Some (Pptx deck2)" and
    sh1: "shapes (deck2 ! 1)
          = draw_background granted_world 1 []
            @ [title_box (slides ! 1), body_box (slides ! 1), footer_box]" and
    nt1: "notes_text (deck2 ! 1) = notes_str (slides ! 1)" and
    tb1: "text_boxes (deck2 ! 1) = [[title (slides ! 1)], bullets (slides ! 1), [footer_text]]" and
    p1: "pictures (deck2 ! 1) = []"
    by blast
  have "st2 = st'" using bp bp2 by simp
  then have e: "deck2 = deck" using f f2 by simp
  have l1: "length (shapes (deck ! 1)) = 4"
    using sh1 unfolding e
    by (simp add: draw_background_def granted_world_def demo_world_def)
  show ?thesis
  proof (intro conjI exI)
    show "absent_images (lit ''title'') = Some None" by (rule a1)
    show "absent_images (lit ''agenda'') = Some (Some (lit ''ppt_images/agenda.jpg''))" by (rule a2)
    show "files with_title_image (lit ''ppt_images/agenda.jpg'') = None" by (rule a3)
    show "build_presentation granted_world absent_images with_title_image = (Inr (), st')"
      by (rule bp)
    show "files st' OUT_FILE = Some (Pptx deck)" by (rule f)
    show "length deck = 12" using len l by simp
    show "shapes (deck ! 0)
         = [Auto_shape 1 \<lparr>g_left = 0, g_top = 0, g_width = 1000, g_height = 750\<rparr>
              (Fill_solid (Some (RGBColor 0 138 146))) Fill_background,
            Text_box \<lparr>g_left = 50, g_top = 40, g_width = 900, g_height = 120\<rparr>
              [\<lparr>par_text = lit ''AI in Mobile Phones'',
                par_font = \<lparr>font_size = Some 34, font_bold = Some True,
                            font_color = Some (RGBColor 0 109 117)\<rparr>\<rparr>],
            Text_box \<lparr>g_left = 50, g_top = 180, g_width = 530, g_height = 460\<rparr>
              [\<lparr>par_text = lit ''How on-device intelligence is changing mobile experiences'',
                par_font = \<lparr>font_size = Some 18, font_bold = None,
                            font_color = Some (RGBColor 255 255 255)\<rparr>\<rparr>],
            Text_box \<lparr>g_left = 50, g_top = 655, g_width = 900, g_height = 40\<rparr>
              [\<lparr>par_text = lit ''AI in Mobile Phones '' @ [8212] @ lit '' Droplet theme'',
                par_font = \<lparr>font_size = None, font_bold = None, font_color = None\<rparr>\<rparr>]]"
      using s0 unfolding t0 b0 by simp
    show "notes_text (deck ! 0) = lit ''Introduce yourself and objectives.''"
      using nt0 unfolding n0 .
    show "pictures (deck ! 0) = []" by (rule p0)
    show "text_boxes (deck ! 1)
         = [[lit ''Agenda''],
            [lit ''What is mobile AI?'', lit ''On-device vs cloud'', lit ''Hardware & software'',
             lit ''Use cases'', lit ''Developer workflow'', lit ''Challenges & ethics'',
             lit ''Future trends'', lit ''Appendix & references''],
            [lit ''AI in Mobile Phones '' @ [8212] @ lit '' Droplet theme'']]"
      using tb1 unfolding e t1 b1 footer_text_def .
    show "length (shapes (deck ! 1)) = 4" by (rule l1)
    show "notes_text (deck ! 1) = lit ''Walk through the agenda.''"
      using nt1 unfolding e n1 .
    show "pictures (deck ! 1) = []" using p1 unfolding e .
  qed
qed

subsection \<open>Failures inside a slide\<close>

lemma build_slide_silent:
  "dict_get ips (image_key s) = None \<Longrightarrow> snd (build_slide w ips i s st) = st"
  by (simp add: build_slide_state insert_image_absent)

lemma build_slides_silent: "snd (build_slides w Map.empty i ss deck st) = st"
proof (induction ss arbitrary: i deck st)
  case Nil
  then show ?case by simp
next
  case (Cons s ss)
  have "snd (build_slide w Map.empty i s st) = st"
    by (rule build_slide_silent) (simp add: dict_get_def)
  then obtain sl where "build_slide w Map.empty i s st = (sl, st)"
    by (cases "build_slide w Map.empty i s st") simp
  then show ?case using Cons.IH by simp
qed

lemma insert_image_fails:
  assumes "ip = Some p" "p \<noteq> []" "os_path_exists p st" "picture_error w p = Some e"
  shows "insert_image w ip shp st = (shp, print (insert_failed_line e) st)"
  using assms by (simp add: insert_image_def)

lemma insert_image_quiet:
  assumes "\<forall>p. ip = Some p \<and> p \<noteq> [] \<and> os_path_exists p st \<longrightarrow> picture_error w p = None"
  shows "snd (insert_image w ip shp st) = st"
  using assms by (auto simp: insert_image_def split: option.splits)

text \<open>
  Claim C4 as stated fails: the handler of the background block is
  \<^verbatim>\<open>except Exception: pass\<close>. With \<^verbatim>\<open>add_shape\<close> raising on every slide, all that
  \<^verbatim>\<open>build_presentation\<close> prints is the line about the saved file.
\<close>

theorem background_failure_not_logged:
  "bg_error no_background_world 0 = Some (Add_shape, refused)
   \<and> stdout (snd (build_presentation no_background_world Map.empty fresh))
     = [lit ''[+] Saved presentation to AI_in_Mobile_Phones_Droplet.pptx'']"
proof -
  obtain deck where "build_slides no_background_world Map.empty 0 slides [] fresh = (deck, fresh)"
    using build_slides_silent [of no_background_world 0 slides "[]" fresh]
    by (cases "build_slides no_background_world Map.empty 0 slides [] fresh") simp
  then have "stdout (snd (build_presentation no_background_world Map.empty fresh))
             = [lit ''[+] Saved presentation to '' @ OUT_FILE]"
    by (simp add: build_presentation_def no_background_world_def demo_world_def fresh_def)
  then show ?thesis
    by (simp add: no_background_world_def OUT_FILE_def lit_def)
qed

text \<open>
  Claim C4, amended. For every slide descriptor, whatever raises in the background block
  or in the insertion of the image, the slide is built with its title, its bullets, the
  footer and its notes. An exception of \<^verbatim>\<open>add_picture\<close> leaves the slide without picture and
  prints one line; when \<^verbatim>\<open>add_picture\<close> is not called or does not raise, nothing is printed,
  so that an exception of the background block leaves no trace in the output.
\<close>

theorem slide_survives_local_failures:
  "text_boxes (fst (build_slide w ips i s st))
     = [[title s], body_paragraphs (bullets s), [footer_text]]
   \<and> notes_text (fst (build_slide w ips i s st)) = notes_str s
   \<and> (\<forall>p e. dict_get ips (image_key s) = Some p \<and> p \<noteq> [] \<and> os_path_exists p st
             \<and> picture_error w p = Some e \<longrightarrow>
          pictures (fst (build_slide w ips i s st)) = []
          \<and> stdout (snd (build_slide w ips i s st)) = stdout st @ [insert_failed_line e])
   \<and> ((\<forall>p. dict_get ips (image_key s) = Some p \<and> p \<noteq> [] \<and> os_path_exists p st \<longrightarrow>
            picture_error w p = None) \<longrightarrow>
        stdout (snd (build_slide w ips i s st)) = stdout st)"
proof (intro conjI allI impI)
  show "text_boxes (fst (build_slide w ips i s st))
        = [[title s], body_paragraphs (bullets s), [footer_text]]"
    by (rule build_slide_text_boxes)
  show "notes_text (fst (build_slide w ips i s st)) = notes_str s"
    by (rule build_slide_notes)
next
  fix p e
  assume a: "dict_get ips (image_key s) = Some p \<and> p \<noteq> [] \<and> os_path_exists p st
             \<and> picture_error w p = Some e"
  then have a1: "dict_get ips (image_key s) = Some p" and a2: "p \<noteq> []"
    and a3: "os_path_exists p st" and a4: "picture_error w p = Some e"
    by blast+
  have f: "insert_image w (dict_get ips (image_key s)) [] st
           = ([], print (insert_failed_line e) st)"
    using a1 a2 a3 a4 by (rule insert_image_fails)
  show "pictures (fst (build_slide w ips i s st)) = []"
    by (simp add: build_slide_pictures f)
  show "stdout (snd (build_slide w ips i s st)) = stdout st @ [insert_failed_line e]"
    by (simp add: build_slide_state f)
next
  assume "\<forall>p. dict_get ips (image_key s) = Some p \<and> p \<noteq> [] \<and> os_path_exists p st \<longrightarrow>
            picture_error w p = None"
  then have "snd (insert_image w (dict_get ips (image_key s)) [] st) = st"
    by (rule insert_image_quiet)
  then show "stdout (snd (build_slide w ips i s st)) = stdout st"
    by (simp add: build_slide_state)
qed

theorem slide_survives_local_failures_witness:
  "bg_error failing_world 0 = Some (Fill_solid_call, refused)
   \<and> picture_error failing_world title_image = Some refused
   \<and> text_boxes (fst (build_slide failing_world [lit ''title'' \<mapsto> Some title_image] 0 (slides ! 0)
                         with_title_image))
     = [[lit ''AI in Mobile Phones''],
        [lit ''How on-device intelligence is changing mobile experiences''],
        [footer_text]]
   \<and> notes_text (fst (build_slide failing_world [lit ''title'' \<mapsto> Some title_image] 0 (slides ! 0)
                         with_title_image))
     = lit ''Introduce yourself and objectives.''
   \<and> pictures (fst (build_slide failing_world [lit ''title'' \<mapsto> Some title_image] 0 (slides ! 0)
                       with_title_image)) = []
   \<and> stdout (snd (build_slide failing_world [lit ''title'' \<mapsto> Some title_image] 0 (slides ! 0)
                     with_title_image))
     = [lit ''[!] insert image failed: connection refused'']
   \<and> stdout (snd (build_slide failing_world Map.empty 0 (slides ! 0) with_title_image)) = []"
proof -
  let ?ips = "[lit ''title'' \<mapsto> Some title_image]"
  have k: "image_key (slides ! 0) = lit ''title''"
    and t: "title (slides ! 0) = lit ''AI in Mobile Phones''"
    and b: "body_paragraphs (bullets (slides ! 0))
            = [lit ''How on-device intelligence is changing mobile experiences'']"
    and n: "notes_str (slides ! 0) = lit ''Introduce yourself and objectives.''"
    by (simp_all add: slides_def body_paragraphs_def)
  have w: "bg_error failing_world 0 = Some (Fill_solid_call, refused)"
          "picture_error failing_world title_image = Some refused"
    by (simp_all add: failing_world_def demo_world_def)
  have a: "dict_get ?ips (image_key (slides ! 0)) = Some title_image \<and> title_image \<noteq> []
           \<and> os_path_exists title_image with_title_image
           \<and> picture_error failing_world title_image = Some refused"
    by (simp add: k dict_get_def w os_path_exists_def with_title_image_def)
       (simp add: title_image_def lit_def)
  have q: "\<forall>p. dict_get Map.empty (image_key (slides ! 0)) = Some p \<and> p \<noteq> []
               \<and> os_path_exists p with_title_image \<longrightarrow> picture_error failing_world p = None"
    by (simp add: dict_get_def)
  have m: "insert_failed_line refused = lit ''[!] insert image failed: connection refused''"
    by (simp add: insert_failed_line_def refused_def lit_def)
  note th1 = slide_survives_local_failures [of failing_world ?ips 0 "slides ! 0" with_title_image]
  note th2 = slide_survives_local_failures [of failing_world Map.empty 0 "slides ! 0" with_title_image]
  from th1 have c1: "text_boxes (fst (build_slide failing_world ?ips 0 (slides ! 0) with_title_image))
      = [[title (slides ! 0)], body_paragraphs (bullets (slides ! 0)), [footer_text]]"
    and c2: "notes_text (fst (build_slide failing_world ?ips 0 (slides ! 0) with_title_image))
      = notes_str (slides ! 0)"
    by blast+
  from th1 a have c3: "pictures (fst (build_slide failing_world ?ips 0 (slides ! 0) with_title_image)) = []"
    and c4: "stdout (snd (build_slide failing_world ?ips 0 (slides ! 0) with_title_image))
             = stdout with_title_image @ [insert_failed_line refused]"
    by blast+
  from th2 q have c5: "stdout (snd (build_slide failing_world Map.empty 0 (slides ! 0) with_title_image))
             = stdout with_title_image"
    by blast
  have s0: "stdout with_title_image = []" by (simp add: with_title_image_def)
  from w c1 c2 c3 c4 c5 show ?thesis
    unfolding t b n m s0 by simp
qed

subsection \<open>The image fetcher\<close>

lemma topic_key_relative:
  "(k, q) \<in> set IMAGE_QUERIES \<Longrightarrow> os_path_join IMG_DIR (k @ lit ''.jpg'') = IMG_DIR @ lit ''/'' @ k @ lit ''.jpg''"
  by (auto simp: IMAGE_QUERIES_def os_path_join_def IMG_DIR_def lit_def)

lemma download_succeeds:
  assumes "http w (get_request (image_url query max_w max_h)) = Inr r"
      and "\<not> (400 \<le> status_code r \<and> status_code r < 600)"
      and "open_error w (os_path_join IMG_DIR (name @ lit ''.jpg'')) = None"
      and "write_error w (os_path_join IMG_DIR (name @ lit ''.jpg'')) = None"
  shows "download_placeholder w name query max_w max_h st
         = (Some (os_path_join IMG_DIR (name @ lit ''.jpg'')),
            st\<lparr>sent := sent st @ [get_request (image_url query max_w max_h)],
               files := (files st)(os_path_join IMG_DIR (name @ lit ''.jpg'') \<mapsto> Raw (content r))\<rparr>)"
  using assms
  by (auto simp: download_placeholder_def download_try_def send_def raise_for_status_def
                 write_file_def Let_def)

lemma download_warns:
  "download_try w name address st = (Inl e, st1) \<Longrightarrow>
   download_placeholder w name query max_w max_h st = (res, st') \<Longrightarrow>
   address = image_url query max_w max_h \<Longrightarrow>
   res = None \<and> stdout st' = stdout st1 @ [download_warning name e]"
  by (auto simp: download_placeholder_def)

lemma download_try_stdout:
  "download_try w name address st = (res, st1) \<Longrightarrow> stdout st1 = stdout st"
  by (auto simp: download_try_def send_def write_file_def Let_def
           split: sum.splits option.splits prod.splits)

lemma download_try_ok:
  assumes "download_try w name address st = (Inr path, st1)"
  shows "\<exists>r. http w (get_request address) = Inr r
           \<and> \<not> (400 \<le> status_code r \<and> status_code r < 600)
           \<and> open_error w (os_path_join IMG_DIR (name @ lit ''.jpg'')) = None
           \<and> write_error w (os_path_join IMG_DIR (name @ lit ''.jpg'')) = None"
  using assms
  by (auto simp: download_try_def send_def write_file_def raise_for_status_def Let_def
           split: sum.splits option.splits prod.splits if_splits)

lemma download_fails:
  assumes "\<not> (\<exists>r. http w (get_request (image_url query max_w max_h)) = Inr r
               \<and> \<not> (400 \<le> status_code r \<and> status_code r < 600)
               \<and> open_error w (os_path_join IMG_DIR (name @ lit ''.jpg'')) = None
               \<and> write_error w (os_path_join IMG_DIR (name @ lit ''.jpg'')) = None)"
  shows "fst (download_placeholder w name query max_w max_h st) = None
       \<and> (\<exists>e. stdout (snd (download_placeholder w name query max_w max_h st))
                = stdout st @ [download_warning name e])"
proof -
  obtain x st1 where t: "download_try w name (image_url query max_w max_h) st = (x, st1)"
    by (cases "download_try w name (image_url query max_w max_h) st")
  obtain res st' where d: "download_placeholder w name query max_w max_h st = (res, st')"
    by (cases "download_placeholder w name query max_w max_h st")
  show ?thesis
  proof (cases x)
    case (Inl e)
    with t have t': "download_try w name (image_url query max_w max_h) st = (Inl e, st1)"
      by simp
    from download_warns [OF t' d refl] download_try_stdout [OF t']
    have "res = None" and "stdout st' = stdout st @ [download_warning name e]"
      by simp_all
    with d show ?thesis by auto
  next
    case (Inr path)
    with t have "download_try w name (image_url query max_w max_h) st = (Inr path, st1)"
      by simp
    from download_try_ok [OF this] assms show ?thesis by blast
  qed
qed

lemma download_all_dom:
  "dom (fst (download_all w kqs ips st)) = dom ips \<union> fst ` set kqs"
proof (induction kqs arbitrary: ips st)
  case Nil
  then show ?case by simp
next
  case (Cons kq kqs)
  obtain k q where kq: "kq = (k, q)" by (cases kq)
  obtain p st1 where d: "download_placeholder w k q 1600 900 st = (p, st1)"
    by (cases "download_placeholder w k q 1600 900 st")
  have "dom (fst (download_all w kqs (ips(k \<mapsto> p)) st1)) = dom (ips(k \<mapsto> p)) \<union> fst ` set kqs"
    by (rule Cons.IH)
  then show ?case using kq d by auto
qed

text \<open>
  Claim C6 as stated fails for a response that is neither a success nor an error of the
  4xx or 5xx kind: \<^verbatim>\<open>raise_for_status\<close> returns for status 300, so the body is written and the
  path is returned, with no warning.
\<close>

theorem download_keeps_status_300:
  "status_code multiple_choices = 300
   \<and> fst (download_placeholder redirect_world (lit ''title'') (lit ''smartphone,technology'')
            1600 900 fresh) = Some (lit ''ppt_images/title.jpg'')
   \<and> stdout (snd (download_placeholder redirect_world (lit ''title'')
                     (lit ''smartphone,technology'') 1600 900 fresh)) = []"
proof -
  have p: "os_path_join IMG_DIR (lit ''title'' @ lit ''.jpg'') = lit ''ppt_images/title.jpg''"
    by (simp add: os_path_join_def IMG_DIR_def lit_def)
  have "download_placeholder redirect_world (lit ''title'') (lit ''smartphone,technology'')
          1600 900 fresh
        = (Some (os_path_join IMG_DIR (lit ''title'' @ lit ''.jpg'')),
           fresh\<lparr>sent := sent fresh @ [get_request (image_url (lit ''smartphone,technology'') 1600 900)],
                 files := (files fresh)(os_path_join IMG_DIR (lit ''title'' @ lit ''.jpg'')
                            \<mapsto> Raw (content multiple_choices))\<rparr>)"
    by (rule download_succeeds)
       (simp_all add: redirect_world_def demo_world_def multiple_choices_def)
  then show ?thesis
    by (simp add: p) (simp add: multiple_choices_def fresh_def)
qed

text \<open>
  Claim C6, amended. For every key, \<^verbatim>\<open>download_placeholder\<close> sends one GET. When it is answered
  with a status outside 400 to 599 and the file can be opened and written, the response
  bytes are written to the path and the path is returned; for a topic key the path is
  \<^verbatim>\<open>IMG_DIR/<key>.jpg\<close>. In every other case (the request raises, the status is 4xx or 5xx,
  the file cannot be opened or written) a warning is printed and \<open>None\<close> is returned. The
  run goes on either way: the loop of \<^verbatim>\<open>main\<close> gives every topic key its entry.
\<close>

theorem download_placeholder_outcome:
  "(let rq = get_request (image_url query max_w max_h);
        path = os_path_join IMG_DIR (name @ lit ''.jpg'');
        ok = (\<exists>r. http w rq = Inr r \<and> \<not> (400 \<le> status_code r \<and> status_code r < 600)
                  \<and> open_error w path = None \<and> write_error w path = None)
    in (ok \<longrightarrow>
          (\<exists>r. http w rq = Inr r
              \<and> download_placeholder w name query max_w max_h st
                = (Some path, st\<lparr>sent := sent st @ [rq],
                                 files := (files st)(path \<mapsto> Raw (content r))\<rparr>)))
     \<and> (\<not> ok \<longrightarrow>
          fst (download_placeholder w name query max_w max_h st) = None
          \<and> (\<exists>e. stdout (snd (download_placeholder w name query max_w max_h st))
                   = stdout st @ [download_warning name e]))
     \<and> ((name, query) \<in> set IMAGE_QUERIES \<longrightarrow> path = IMG_DIR @ lit ''/'' @ name @ lit ''.jpg''))
   \<and> dom (fst (download_all w IMAGE_QUERIES Map.empty st)) = fst ` set IMAGE_QUERIES"
proof -
  let ?rq = "get_request (image_url query max_w max_h)"
  let ?path = "os_path_join IMG_DIR (name @ lit ''.jpg'')"
  let ?ok = "\<exists>r. http w ?rq = Inr r \<and> \<not> (400 \<le> status_code r \<and> status_code r < 600)
                  \<and> open_error w ?path = None \<and> write_error w ?path = None"
  have a: "?ok \<longrightarrow>
          (\<exists>r. http w ?rq = Inr r
              \<and> download_placeholder w name query max_w max_h st
                = (Some ?path, st\<lparr>sent := sent st @ [?rq],
                                  files := (files st)(?path \<mapsto> Raw (content r))\<rparr>))"
    using download_succeeds [of w query max_w max_h _ name st] by blast
  have b: "\<not> ?ok \<longrightarrow>
          fst (download_placeholder w name query max_w max_h st) = None
          \<and> (\<exists>e. stdout (snd (download_placeholder w name query max_w max_h st))
                   = stdout st @ [download_warning name e])"
    using download_fails [of w query max_w max_h name st] by blast
  have c: "(name, query) \<in> set IMAGE_QUERIES \<longrightarrow> ?path = IMG_DIR @ lit ''/'' @ name @ lit ''.jpg''"
    using topic_key_relative by blast
  have d: "dom (fst (download_all w IMAGE_QUERIES Map.empty st)) = fst ` set IMAGE_QUERIES"
    by (simp add: download_all_dom)
  from a b c d show ?thesis unfolding Let_def by blast
qed

theorem download_placeholder_outcome_witness:
  "download_placeholder granted_world (lit ''title'') (lit ''smartphone,technology'') 1600 900 fresh
   = (Some (lit ''ppt_images/title.jpg''),
      \<lparr>stdout = [], files = [lit ''ppt_images/title.jpg'' \<mapsto> Raw [255, 216, 255]],
       sent = [get_request (image_url (lit ''smartphone,technology'') 1600 900)]\<rparr>)
   \<and> fst (download_placeholder denied_world (lit ''title'') (lit ''smartphone,technology'')
            1600 900 fresh) = None
   \<and> (\<exists>e. stdout (snd (download_placeholder denied_world (lit ''title'')
                          (lit ''smartphone,technology'') 1600 900 fresh))
            = [download_warning (lit ''title'') e])
   \<and> dom (fst (download_all denied_world IMAGE_QUERIES Map.empty fresh)) = fst ` set IMAGE_QUERIES"
proof -
  let ?q = "lit ''smartphone,technology''"
  let ?rq = "get_request (image_url ?q 1600 900)"
  let ?path = "os_path_join IMG_DIR (lit ''title'' @ lit ''.jpg'')"
  have m: "(lit ''title'', ?q) \<in> set IMAGE_QUERIES"
    by (simp add: IMAGE_QUERIES_def)
  have g: "\<exists>r. http granted_world ?rq = Inr r \<and> \<not> (400 \<le> status_code r \<and> status_code r < 600)
               \<and> open_error granted_world ?path = None \<and> write_error granted_world ?path = None"
    by (simp add: granted_world_def demo_world_def ok_response_def)
  have n: "\<not> (\<exists>r. http denied_world ?rq = Inr r \<and> \<not> (400 \<le> status_code r \<and> status_code r < 600)
               \<and> open_error denied_world ?path = None \<and> write_error denied_world ?path = None)"
    by (simp add: denied_world_def demo_world_def denied_response_def)
  have hg: "\<And>r. http granted_world ?rq = Inr r \<Longrightarrow> content r = [255, 216, 255]"
    by (auto simp: granted_world_def demo_world_def ok_response_def)
  note tg = download_placeholder_outcome [of ?q 1600 900 "lit ''title''" granted_world fresh,
              unfolded Let_def]
  note td = download_placeholder_outcome [of ?q 1600 900 "lit ''title''" denied_world fresh,
              unfolded Let_def]
  from tg m have p: "?path = IMG_DIR @ lit ''/'' @ lit ''title'' @ lit ''.jpg''"
    by blast
  have p': "IMG_DIR @ lit ''/'' @ lit ''title'' @ lit ''.jpg'' = lit ''ppt_images/title.jpg''"
    by (simp add: IMG_DIR_def lit_def)
  from tg g obtain r where
    "http granted_world ?rq = Inr r" and
    "download_placeholder granted_world (lit ''title'') ?q 1600 900 fresh
     = (Some ?path, fresh\<lparr>sent := sent fresh @ [?rq],
                          files := (files fresh)(?path \<mapsto> Raw (content r))\<rparr>)"
    by blast
  then have 1: "download_placeholder granted_world (lit ''title'') ?q 1600 900 fresh
     = (Some (lit ''ppt_images/title.jpg''),
        \<lparr>stdout = [], files = [lit ''ppt_images/title.jpg'' \<mapsto> Raw [255, 216, 255]],
         sent = [?rq]\<rparr>)"
    using hg [of r] by (simp add: p p' fresh_def)
  from td n have 2: "fst (download_placeholder denied_world (lit ''title'') ?q 1600 900 fresh) = None"
    and 3: "\<exists>e. stdout (snd (download_placeholder denied_world (lit ''title'') ?q 1600 900 fresh))
                = stdout fresh @ [download_warning (lit ''title'') e]"
    by blast+
  from td have 4: "dom (fst (download_all denied_world IMAGE_QUERIES Map.empty fresh))
                   = fst ` set IMAGE_QUERIES"
    by blast
  from 1 2 3 4 show ?thesis by (simp add: fresh_def)
qed

end
